theory Spec2Isabelle
  imports Complex_Main "HOL-Library.AList"
begin

section \<open>The image converter \<open>konwerter.py\<close>\<close>

text \<open>
  The script lists the folder \<open>do przerobienia\<close>, keeps the regular files with a
  recognised extension, re-encodes each of them as WebP into the folder
  \<open>przerobione\<close> and prints size statistics.  The embedding follows the script
  function by function.  What the script leaves to its environment is made explicit:
  \<^item> the file system is an association list from paths to nodes; its order is the
    order in which \<open>iterdir\<close> lists entries.  A directory carries whether it may
    be listed; there are no other permissions, no symbolic links and no other process;
  \<^item> Pillow is a record of three functions (decode, mode conversion, encode), a
    parameter of every definition that calls it;
  \<^item> an exception is the left summand of a result, carrying its message;
  \<^item> every \<open>print\<close> appends one event, carrying the interpolated values, to the
    console log.  The console is a parameter: it says which lines its encoding can
    encode, and a \<open>print\<close> of another line raises \<open>UnicodeEncodeError\<close>.  It is asked
    up to the first line with an emoji (line 79); a console that takes an emoji has
    a Unicode encoding, and from there on every line is written (file names and
    messages are taken to be well-formed text);
  \<^item> sizes in megabytes are exact rationals: the rounding of Python's floats is
    not represented.
\<close>

subsection \<open>Paths (\<open>pathlib\<close>)\<close>

type_synonym path = "string list"
  \<comment> \<open>the components of a path below the folder of the script\<close>

definition INPUT_FOLDER :: path where
  "INPUT_FOLDER = [''do przerobienia'']"

definition OUTPUT_FOLDER :: path where
  "OUTPUT_FOLDER = [''przerobione'']"

definition name :: "path \<Rightarrow> string" where
  "name p = (if p = [] then [] else last p)"

text \<open>\<open>str.rfind\<close>: the index of the last occurrence, \<open>None\<close> for Python's \<open>-1\<close>.\<close>

fun rfind :: "char \<Rightarrow> string \<Rightarrow> nat option" where
  "rfind c [] = None"
| "rfind c (x # xs) =
     (case rfind c xs of
        Some i \<Rightarrow> Some (Suc i)
      | None \<Rightarrow> if x = c then Some 0 else None)"

text \<open>
  \<open>PurePath.suffix\<close> and \<open>PurePath.stem\<close> as in CPython up to 3.13: the name is
  split at its last dot, unless that dot is the first or the last character.
\<close>

definition suffix :: "string \<Rightarrow> string" where
  "suffix nm =
     (case rfind (CHR ''.'') nm of
        None \<Rightarrow> []
      | Some i \<Rightarrow> if 0 < i \<and> Suc i < length nm then drop i nm else [])"

definition stem :: "string \<Rightarrow> string" where
  "stem nm =
     (case rfind (CHR ''.'') nm of
        None \<Rightarrow> nm
      | Some i \<Rightarrow> if 0 < i \<and> Suc i < length nm then take i nm else nm)"

text \<open>
  \<open>str.lower\<close> on the ASCII letters.  Other characters are left as they are; since
  every recognised extension is plain ASCII and has no letter \<open>k\<close>, membership of a
  lowered suffix in the recognised set is the same as with Python's Unicode lowering.
\<close>

definition lower_char :: "char \<Rightarrow> char" where
  "lower_char c =
     (case map_of (zip ''ABCDEFGHIJKLMNOPQRSTUVWXYZ'' ''abcdefghijklmnopqrstuvwxyz'') c of
        Some l \<Rightarrow> l
      | None \<Rightarrow> c)"

definition lower :: "string \<Rightarrow> string" where
  "lower s = map lower_char s"

subsection \<open>The file system\<close>

type_synonym bytes = string

datatype node =
    File bytes
  | Dir bool    \<comment> \<open>whether the directory may be listed\<close>

type_synonym filesystem = "(path \<times> node) list"

definition is_file :: "filesystem \<Rightarrow> path \<Rightarrow> bool" where
  "is_file fs p = (case map_of fs p of Some (File b) \<Rightarrow> True | _ \<Rightarrow> False)"

text \<open>
  \<open>Path.iterdir\<close>: the entries directly below a directory, in listing order; it
  raises on a directory that may not be listed.
\<close>

definition iterdir :: "filesystem \<Rightarrow> path \<Rightarrow> string + path list" where
  "iterdir fs d =
     (case map_of fs d of
        None \<Rightarrow> Inl ''FileNotFoundError''
      | Some (File b) \<Rightarrow> Inl ''NotADirectoryError''
      | Some (Dir readable) \<Rightarrow>
          if readable then Inr [p \<leftarrow> map fst fs. p \<noteq> [] \<and> butlast p = d]
          else Inl ''PermissionError'')"

text \<open>
  \<open>Path.mkdir(exist_ok=True)\<close> for a folder directly below the folder of the script
  (which exists): an existing directory is left alone, an existing regular file makes
  it raise.
\<close>

definition mkdir :: "filesystem \<Rightarrow> path \<Rightarrow> string + filesystem" where
  "mkdir fs p =
     (case map_of fs p of
        None \<Rightarrow> Inr (fs @ [(p, Dir True)])
      | Some (Dir readable) \<Rightarrow> Inr fs
      | Some (File b) \<Rightarrow> Inl ''FileExistsError'')"

text \<open>
  \<open>st_size\<close>.  For a directory the value is platform-defined; \<open>main\<close> takes the size
  of regular files only: an input file has passed \<open>is_file\<close>, and an output file is
  measured after a save that succeeded.
\<close>

fun st_size :: "node \<Rightarrow> nat" where
  "st_size (File b) = length b"
| "st_size (Dir readable) = 0"

definition get_file_size_mb :: "filesystem \<Rightarrow> path \<Rightarrow> string + rat" where
  "get_file_size_mb fs p =
     (case map_of fs p of
        None \<Rightarrow> Inl ''FileNotFoundError''
      | Some n \<Rightarrow> Inr (of_nat (st_size n) / (1024 * 1024)))"

text \<open>What a path holds after a write (\<open>Some\<close>) or a removal (\<open>None\<close>).\<close>

fun set_node :: "filesystem \<Rightarrow> path \<Rightarrow> node option \<Rightarrow> filesystem" where
  "set_node fs p None = AList.delete p fs"
| "set_node fs p (Some n) = AList.update p n fs"

subsection \<open>Pillow\<close>

record image =
  mode :: string
  info :: "string list"  \<comment> \<open>the keys of \<open>img.info\<close>\<close>
  pixels :: bytes

text \<open>
  The library, as far as the script calls it.
  \<^item> \<open>pil_open\<close>: \<open>Image.open\<close> on the contents of a file;
  \<^item> \<open>pil_convert\<close>: \<open>img.convert(mode)\<close>;
  \<^item> \<open>pil_save\<close>: \<open>img.save(path, format, quality=..., lossless=...)\<close>, given what
    the target path holds.  It yields the encoded bytes, or the message of the error
    together with what the failed call leaves at the target path.  The keyword
    \<open>lossless\<close> is \<open>None\<close> when the call does not pass it.
\<close>

record pillow =
  pil_open :: "bytes \<Rightarrow> string + image"
  pil_convert :: "image \<Rightarrow> string \<Rightarrow> string + image"
  pil_save :: "image \<Rightarrow> string \<Rightarrow> int \<Rightarrow> bool option \<Rightarrow> node option
                 \<Rightarrow> (string \<times> node option) + bytes"

definition image_open :: "pillow \<Rightarrow> filesystem \<Rightarrow> path \<Rightarrow> string + image" where
  "image_open pil fs p =
     (case map_of fs p of
        None \<Rightarrow> Inl ''FileNotFoundError''
      | Some (Dir readable) \<Rightarrow> Inl ''IsADirectoryError''
      | Some (File b) \<Rightarrow> pil_open pil b)"

definition save :: "pillow \<Rightarrow> filesystem \<Rightarrow> image \<Rightarrow> path \<Rightarrow> string \<Rightarrow> int \<Rightarrow> bool option
                      \<Rightarrow> filesystem \<times> (string + unit)" where
  "save pil fs img p fmt quality lossless =
     (case pil_save pil img fmt quality lossless (map_of fs p) of
        Inl (e, left) \<Rightarrow> (set_node fs p left, Inl e)
      | Inr b \<Rightarrow> (set_node fs p (Some (File b)), Inr ()))"

subsection \<open>Console output and process results\<close>

datatype event =
    Pillow_Missing            \<comment> \<open>line 14\<close>
  | Pillow_Hint               \<comment> \<open>line 15\<close>
  | Rule                      \<comment> \<open>lines 78 and 80\<close>
  | Title                     \<comment> \<open>line 79\<close>
  | Folder_In path            \<comment> \<open>line 41\<close>
  | Folder_Out path           \<comment> \<open>line 42\<close>
  | Heic_Warning nat          \<comment> \<open>line 101: the number of HEIC files\<close>
  | Heic_Hint                 \<comment> \<open>line 102\<close>
  | No_Images path            \<comment> \<open>line 105\<close>
  | Formats "string set"      \<comment> \<open>line 106\<close>
  | Found nat                 \<comment> \<open>line 109\<close>
  | Converting nat nat string \<comment> \<open>line 119: index, total, file name\<close>
  | Conversion_Error string string  \<comment> \<open>line 67: file name, message\<close>
  | Converted rat rat rat     \<comment> \<open>line 128: input size, output size, reduction\<close>
  | Blank_Line                \<comment> \<open>line 131\<close>
  | Summary_Header            \<comment> \<open>lines 134 to 136\<close>
  | Converted_Count nat nat   \<comment> \<open>line 137: successes, total\<close>
  | Input_Total rat           \<comment> \<open>line 138\<close>
  | Output_Total rat          \<comment> \<open>line 139\<close>
  | Savings rat rat           \<comment> \<open>line 143: absolute, percentage\<close>
  | Saved_In path             \<comment> \<open>line 145\<close>

datatype outcome =
    Returned        \<comment> \<open>the script ran to its end\<close>
  | Exited nat      \<comment> \<open>\<open>exit(n)\<close>\<close>
  | Raised string   \<comment> \<open>an exception nobody caught\<close>

text \<open>The status the interpreter hands to the operating system.\<close>

fun exit_status :: "outcome \<Rightarrow> nat" where
  "exit_status Returned = 0"
| "exit_status (Exited n) = n"
| "exit_status (Raised e) = 1"

text \<open>The console: the lines the encoding of \<open>stdout\<close> can encode.\<close>

type_synonym console = "event \<Rightarrow> bool"

subsection \<open>Module constants\<close>

definition SUPPORTED_FORMATS :: "string set" where
  "SUPPORTED_FORMATS = {''.jpg'', ''.jpeg'', ''.png'', ''.bmp'', ''.gif'', ''.tiff'', ''.tif''}"

definition HEIC_FORMATS :: "string set" where
  "HEIC_FORMATS = {''.heic'', ''.heif''}"

subsection \<open>\<open>create_folders\<close>\<close>

definition create_folders :: "filesystem \<Rightarrow> filesystem \<times> (string + event list)" where
  "create_folders fs =
     (case mkdir fs INPUT_FOLDER of
        Inl e \<Rightarrow> (fs, Inl e)
      | Inr fs1 \<Rightarrow>
          (case mkdir fs1 OUTPUT_FOLDER of
             Inl e \<Rightarrow> (fs1, Inl e)
           | Inr fs2 \<Rightarrow> (fs2, Inr [Folder_In INPUT_FOLDER, Folder_Out OUTPUT_FOLDER])))"

subsection \<open>\<open>convert_to_webp\<close>\<close>

text \<open>The body of the \<open>try\<close> block (lines 55 to 65): it may raise.\<close>

definition convert_body ::
  "pillow \<Rightarrow> filesystem \<Rightarrow> path \<Rightarrow> path \<Rightarrow> int \<Rightarrow> filesystem \<times> (string + unit)" where
  "convert_body pil fs input_path output_path quality =
     (case image_open pil fs input_path of
        Inl e \<Rightarrow> (fs, Inl e)
      | Inr img \<Rightarrow>
          if mode img \<in> {''RGBA'', ''LA''} \<or> (mode img = ''P'' \<and> ''transparency'' \<in> set (info img))
          then save pil fs img output_path ''WEBP'' quality (Some False)
          else
            (case (if mode img \<noteq> ''RGB'' then pil_convert pil img ''RGB'' else Inr img) of
               Inl e \<Rightarrow> (fs, Inl e)
             | Inr img' \<Rightarrow> save pil fs img' output_path ''WEBP'' quality None))"

text \<open>
  The \<open>try\<close> statement around it (lines 54 and 65 to 68): \<open>True\<close> after the body,
  one printed line and \<open>False\<close> after an exception.
\<close>

definition try_except ::
  "string \<Rightarrow> filesystem \<times> (string + unit) \<Rightarrow> filesystem \<times> event list \<times> bool" where
  "try_except file_name r =
     (case r of
        (fs', Inr u) \<Rightarrow> (fs', [], True)
      | (fs', Inl e) \<Rightarrow> (fs', [Conversion_Error file_name e], False))"

definition convert_to_webp ::
  "pillow \<Rightarrow> filesystem \<Rightarrow> path \<Rightarrow> path \<Rightarrow> int \<Rightarrow> filesystem \<times> event list \<times> bool" where
  "convert_to_webp pil fs input_path output_path quality =
     try_except (name input_path) (convert_body pil fs input_path output_path quality)"

subsection \<open>\<open>main\<close>\<close>

record stats =
  success_count :: nat
  total_input_size :: rat
  total_output_size :: rat

text \<open>Python's \<open>/\<close> raises on a zero divisor.\<close>

definition truediv :: "rat \<Rightarrow> rat \<Rightarrow> string + rat" where
  "truediv a b = (if b = 0 then Inl ''ZeroDivisionError'' else Inr (a / b))"

text \<open>\<open>((a - b) / a) * 100\<close>, the expression of lines 127 and 142.\<close>

definition percent_saved :: "rat \<Rightarrow> rat \<Rightarrow> string + rat" where
  "percent_saved a b =
     (case truediv (a - b) a of Inl e \<Rightarrow> Inl e | Inr q \<Rightarrow> Inr (q * 100))"

text \<open>Line 127.\<close>

definition file_reduction :: "rat \<Rightarrow> rat \<Rightarrow> string + rat" where
  "file_reduction input_size output_size =
     (if input_size > 0 then percent_saved input_size output_size else Inr 0)"

text \<open>Lines 86 to 88.\<close>

definition all_formats :: "bool \<Rightarrow> string set" where
  "all_formats HEIC_SUPPORTED =
     (if HEIC_SUPPORTED then SUPPORTED_FORMATS \<union> HEIC_FORMATS else SUPPORTED_FORMATS)"

text \<open>The comprehensions of lines 90 to 93 and 96 to 99, over a listing of the folder.\<close>

definition select_files :: "filesystem \<Rightarrow> string set \<Rightarrow> path list \<Rightarrow> path list" where
  "select_files fs formats entries =
     [f \<leftarrow> entries. is_file fs f \<and> lower (suffix (name f)) \<in> formats]"

text \<open>Line 117.\<close>

definition output_file_of :: "path \<Rightarrow> path" where
  "output_file_of input_file = OUTPUT_FOLDER @ [stem (name input_file) @ ''.webp'']"

text \<open>
  The body of the loop (lines 117 to 131) for the file with index \<open>i\<close> of \<open>n\<close>.
  It yields the file system, the lines it printed, and the counters or the exception
  that left the loop.
\<close>

definition process_file ::
  "pillow \<Rightarrow> nat \<Rightarrow> nat \<Rightarrow> path \<Rightarrow> filesystem \<Rightarrow> stats
     \<Rightarrow> filesystem \<times> event list \<times> (string + stats)" where
  "process_file pil n i input_file fs st =
     (let output_file = output_file_of input_file;
          ev1 = [Converting i n (name input_file)]
      in case get_file_size_mb fs input_file of
           Inl e \<Rightarrow> (fs, ev1, Inl e)
         | Inr input_size \<Rightarrow>
             (let st1 = st\<lparr>total_input_size := total_input_size st + input_size\<rparr>
              in case convert_to_webp pil fs input_file output_file 85 of
                   (fs2, ev2, ok) \<Rightarrow>
                     if ok then
                       (case get_file_size_mb fs2 output_file of
                          Inl e \<Rightarrow> (fs2, ev1 @ ev2, Inl e)
                        | Inr output_size \<Rightarrow>
                            (let st2 = st1\<lparr>total_output_size :=
                                              total_output_size st1 + output_size\<rparr>
                             in case file_reduction input_size output_size of
                                  Inl e \<Rightarrow> (fs2, ev1 @ ev2, Inl e)
                                | Inr reduction \<Rightarrow>
                                    (fs2,
                                     ev1 @ ev2 @ [Converted input_size output_size reduction],
                                     Inr (st2\<lparr>success_count := success_count st2 + 1\<rparr>))))
                     else (fs2, ev1 @ ev2 @ [Blank_Line], Inr st1)))"

text \<open>The \<open>for\<close> loop of line 116 over the files that are left, the next index being \<open>i\<close>.\<close>

fun convert_loop ::
  "pillow \<Rightarrow> nat \<Rightarrow> nat \<Rightarrow> path list \<Rightarrow> filesystem \<Rightarrow> stats
     \<Rightarrow> filesystem \<times> event list \<times> (string + stats)" where
  "convert_loop pil n i [] fs st = (fs, [], Inr st)"
| "convert_loop pil n i (f # rest) fs st =
     (case process_file pil n i f fs st of
        (fs1, ev1, Inl e) \<Rightarrow> (fs1, ev1, Inl e)
      | (fs1, ev1, Inr st1) \<Rightarrow>
          (case convert_loop pil n (Suc i) rest fs1 st1 of
             (fs2, ev2, r) \<Rightarrow> (fs2, ev1 @ ev2, r)))"

text \<open>Lines 134 to 145.\<close>

definition summary :: "nat \<Rightarrow> stats \<Rightarrow> event list \<times> (string + unit)" where
  "summary n st =
     (let ev = [Summary_Header, Converted_Count (success_count st) n,
                Input_Total (total_input_size st), Output_Total (total_output_size st)]
      in if total_input_size st > 0 then
           (case percent_saved (total_input_size st) (total_output_size st) of
              Inl e \<Rightarrow> (ev, Inl e)
            | Inr total_reduction \<Rightarrow>
                (ev @ [Savings (total_input_size st - total_output_size st) total_reduction,
                       Saved_In OUTPUT_FOLDER], Inr ()))
         else (ev @ [Saved_In OUTPUT_FOLDER], Inr ()))"

text \<open>
  \<open>main\<close> (lines 78 to 145).  Line 78 is plain ASCII; line 79 is the first line with
  an emoji, and the \<open>print\<close> raises when the console cannot encode it, before any
  folder is touched.  Nothing in \<open>main\<close> catches an exception of \<open>create_folders\<close>, of
  \<open>iterdir\<close> or of \<open>get_file_size_mb\<close>.
\<close>

definition main ::
  "console \<Rightarrow> pillow \<Rightarrow> bool \<Rightarrow> filesystem \<Rightarrow> filesystem \<times> event list \<times> outcome" where
  "main stdout pil HEIC_SUPPORTED fs =
     (if \<not> stdout Title then (fs, [Rule], Raised ''UnicodeEncodeError'')
      else
        (let log0 = [Rule, Title, Rule] in
         case create_folders fs of
           (fs1, Inl e) \<Rightarrow> (fs1, log0, Raised e)
         | (fs1, Inr ev1) \<Rightarrow>
             (let log1 = log0 @ ev1 in
              case iterdir fs1 INPUT_FOLDER of
                Inl e \<Rightarrow> (fs1, log1, Raised e)
              | Inr entries \<Rightarrow>
                  (let image_files = select_files fs1 (all_formats HEIC_SUPPORTED) entries in
                   case iterdir fs1 INPUT_FOLDER of
                     Inl e \<Rightarrow> (fs1, log1, Raised e)
                   | Inr entries' \<Rightarrow>
                       (let heic_files = select_files fs1 HEIC_FORMATS entries';
                            log2 = log1 @ (if heic_files \<noteq> [] \<and> \<not> HEIC_SUPPORTED
                                           then [Heic_Warning (length heic_files), Heic_Hint]
                                           else [])
                        in if image_files = [] then
                             (fs1, log2 @ [No_Images INPUT_FOLDER,
                                           Formats (all_formats HEIC_SUPPORTED)], Returned)
                           else
                             (let log3 = log2 @ [Found (length image_files)] in
                              case convert_loop pil (length image_files) 1 image_files fs1
                                     \<lparr>success_count = 0, total_input_size = 0,
                                      total_output_size = 0\<rparr> of
                                (fs2, ev2, Inl e) \<Rightarrow> (fs2, log3 @ ev2, Raised e)
                              | (fs2, ev2, Inr st) \<Rightarrow>
                                  (case summary (length image_files) st of
                                     (ev3, Inl e) \<Rightarrow> (fs2, log3 @ ev2 @ ev3, Raised e)
                                   | (ev3, Inr u) \<Rightarrow>
                                       (fs2, log3 @ ev2 @ ev3, Returned))))))))"

text \<open>
  The module from its first line: the import guard of lines 11 to 16, the optional
  import of lines 19 to 25 (\<open>HEIC_SUPPORTED\<close> is whether \<open>pillow_heif\<close> imported), then
  \<open>main\<close>.  \<open>pil\<close> is Pillow with the decoders registered by then.  Line 14 is plain
  ASCII; line 15 has Polish letters, which not every console encodes.
\<close>

definition program ::
  "console \<Rightarrow> bool \<Rightarrow> bool \<Rightarrow> pillow \<Rightarrow> filesystem
     \<Rightarrow> filesystem \<times> event list \<times> outcome" where
  "program stdout pillow_imports heif_imports pil fs =
     (if \<not> pillow_imports then
        (if \<not> stdout Pillow_Hint then (fs, [Pillow_Missing], Raised ''UnicodeEncodeError'')
         else (fs, [Pillow_Missing, Pillow_Hint], Exited 1))
      else main stdout pil heif_imports fs)"

subsection \<open>Reading the console log\<close>

text \<open>The input and output sizes of the lines printed for converted files (line 128).\<close>

definition converted_sizes :: "event list \<Rightarrow> (rat \<times> rat) list" where
  "converted_sizes ev =
     concat (map (\<lambda>x. case x of Converted a b r \<Rightarrow> [(a, b)] | _ \<Rightarrow> []) ev)"

subsection \<open>A small Pillow and a small folder, for concrete runs\<close>

text \<open>
  \<open>demo_pillow\<close> reads the mode of an image from the bytes before the first colon,
  finds a transparency entry when the last byte is \<open>t\<close>, refuses an empty file, and
  encodes to the first two bytes of the pixels; it cannot write onto a directory.
  \<open>utf8_console\<close> encodes every line, \<open>ascii_console\<close> only the lines in plain ASCII
  that come before the first emoji.
\<close>

definition utf8_console :: console where
  "utf8_console e = True"

definition ascii_console :: console where
  "ascii_console e = (e = Pillow_Missing \<or> e = Rule)"

definition demo_pillow :: pillow where
  "demo_pillow =
     \<lparr>pil_open = (\<lambda>b. if b = [] then Inl ''cannot identify image file''
                       else Inr \<lparr>mode = takeWhile (\<lambda>c. c \<noteq> CHR '':'') b,
                                 info = (if last b = CHR ''t'' then [''transparency''] else []),
                                 pixels = b\<rparr>),
      pil_convert = (\<lambda>img m. Inr (img\<lparr>mode := m\<rparr>)),
      pil_save = (\<lambda>img fmt quality lossless target.
                    case target of
                      Some (Dir readable) \<Rightarrow> Inl (''IsADirectoryError'', target)
                    | _ \<Rightarrow> Inr (take 2 (pixels img)))\<rparr>"

definition demo_fs :: filesystem where
  "demo_fs =
     [(INPUT_FOLDER, Dir True),
      (OUTPUT_FOLDER, Dir True),
      (INPUT_FOLDER @ [''photo.JPG''], File ''RGB:0123456789''),
      (INPUT_FOLDER @ [''icon.png''], File ''RGBA:abc''),
      (INPUT_FOLDER @ [''broken.gif''], File []),
      (INPUT_FOLDER @ [''scan.heic''], File ''RGB:xx''),
      (INPUT_FOLDER @ [''notes.txt''], File ''hello''),
      (INPUT_FOLDER @ [''album.png''], Dir True),
      (OUTPUT_FOLDER @ [''icon.webp''], File ''old content'')]"

text \<open>A folder whose only image is an empty file.\<close>

definition empty_image_fs :: filesystem where
  "empty_image_fs =
     [(INPUT_FOLDER, Dir True), (OUTPUT_FOLDER, Dir True), (INPUT_FOLDER @ [''broken.gif''], File [])]"

text \<open>
  A folder with one HEIC file, where a regular file has the name of the output folder.
\<close>

definition heic_blocked_fs :: filesystem where
  "heic_blocked_fs =
     [(INPUT_FOLDER, Dir True),
      (INPUT_FOLDER @ [''scan.heic''], File ''RGB:xx''),
      (OUTPUT_FOLDER, File ''x'')]"

text \<open>A Pillow that decodes nothing.\<close>

definition refusing_pillow :: pillow where
  "refusing_pillow =
     \<lparr>pil_open = (\<lambda>b. Inl ''cannot identify image file''),
      pil_convert = (\<lambda>img m. Inl ''conversion not supported''),
      pil_save = (\<lambda>img fmt quality lossless target. Inl (''encoder error'', target))\<rparr>"

section \<open>Auxiliary facts\<close>

subsection \<open>What a conversion changes in the file system\<close>

lemma map_of_set_node: "map_of (set_node fs p x) q = (if q = p then x else map_of fs q)"
  by (cases x) (simp_all add: update_conv' delete_conv')

lemma save_frame: "q \<noteq> p \<Longrightarrow> map_of (fst (save pil fs img p fmt quality l)) q = map_of fs q"
  by (simp add: save_def map_of_set_node split: sum.splits prod.splits del: set_node.simps)

lemma save_ok:
  "save pil fs img p fmt quality l = (fs', Inr u) \<Longrightarrow> \<exists>b. map_of fs' p = Some (File b)"
  by (auto simp: save_def map_of_set_node split: sum.splits prod.splits simp del: set_node.simps)

lemma convert_body_frame:
  "q \<noteq> out \<Longrightarrow> map_of (fst (convert_body pil fs inp out quality)) q = map_of fs q"
  by (simp add: convert_body_def save_frame split: sum.splits)

lemma convert_body_ok:
  "convert_body pil fs inp out quality = (fs', Inr u) \<Longrightarrow> \<exists>b. map_of fs' out = Some (File b)"
  by (auto simp: convert_body_def split: sum.splits if_splits dest: save_ok)

lemma convert_to_webp_frame:
  "q \<noteq> out \<Longrightarrow> map_of (fst (convert_to_webp pil fs inp out quality)) q = map_of fs q"
  using convert_body_frame [of q out pil fs inp quality]
  by (auto simp: convert_to_webp_def try_except_def split: sum.splits prod.splits)

lemma convert_to_webp_ok:
  "convert_to_webp pil fs inp out quality = (fs', ev, True)
     \<Longrightarrow> \<exists>b. map_of fs' out = Some (File b)"
  by (auto simp: convert_to_webp_def try_except_def split: sum.splits prod.splits
      dest: convert_body_ok)

subsection \<open>The two divisions\<close>

lemma percent_saved_pos: "a \<noteq> 0 \<Longrightarrow> percent_saved a b = Inr ((a - b) / a * 100)"
  by (simp add: percent_saved_def truediv_def)

lemma file_reduction_eq:
  "file_reduction a b = Inr (if a > 0 then (a - b) / a * 100 else 0)"
  by (simp add: file_reduction_def percent_saved_pos)

lemma get_file_size_mb_file:
  "map_of fs p = Some (File b) \<Longrightarrow> get_file_size_mb fs p = Inr (of_nat (length b) / (1024 * 1024))"
  by (simp add: get_file_size_mb_def)

subsection \<open>The loop does not raise on regular files of the input folder\<close>

lemma process_file_returns:
  assumes "map_of fs f = Some (File b)"
  shows "\<exists>fs' ev st'. process_file pil n i f fs st = (fs', ev, Inr st')"
proof -
  obtain fs2 ev2 ok where c: "convert_to_webp pil fs f (output_file_of f) 85 = (fs2, ev2, ok)"
    by (cases "convert_to_webp pil fs f (output_file_of f) 85") auto
  show ?thesis
  proof (cases ok)
    case True
    with c have "convert_to_webp pil fs f (output_file_of f) 85 = (fs2, ev2, True)" by simp
    then obtain b' where "map_of fs2 (output_file_of f) = Some (File b')"
      using convert_to_webp_ok by blast
    with c True assms show ?thesis
      by (simp add: process_file_def get_file_size_mb_file file_reduction_eq Let_def)
  next
    case False
    with c assms show ?thesis
      by (simp add: process_file_def get_file_size_mb_file Let_def)
  qed
qed

lemma process_file_frame:
  assumes "q \<noteq> output_file_of f"
  shows "map_of (fst (process_file pil n i f fs st)) q = map_of fs q"
  using convert_to_webp_frame [OF assms, of pil fs f 85]
  by (auto simp: process_file_def Let_def split: sum.splits prod.splits)

lemma INPUT_neq_OUTPUT: "INPUT_FOLDER \<noteq> OUTPUT_FOLDER"
  by (simp add: INPUT_FOLDER_def OUTPUT_FOLDER_def)

lemma butlast_output_file_of: "butlast (output_file_of f) = OUTPUT_FOLDER"
  by (simp add: output_file_of_def butlast_append)

lemma output_file_of_not_input: "butlast (output_file_of f) \<noteq> INPUT_FOLDER"
  using INPUT_neq_OUTPUT by (simp add: butlast_output_file_of)

lemma convert_loop_frame:
  assumes "butlast q \<noteq> OUTPUT_FOLDER"
  shows "map_of (fst (convert_loop pil n i files fs st)) q = map_of fs q"
proof (induction files arbitrary: i fs st)
  case Nil
  show ?case by simp
next
  case (Cons f rest)
  have ne: "q \<noteq> output_file_of f"
    using assms butlast_output_file_of by blast
  obtain fs1 ev1 r where p: "process_file pil n i f fs st = (fs1, ev1, r)"
    by (cases "process_file pil n i f fs st") auto
  have f1: "map_of fs1 q = map_of fs q"
    using process_file_frame [OF ne, of pil n i fs st] p by simp
  show ?case
  proof (cases r)
    case (Inl e)
    with p f1 show ?thesis by simp
  next
    case (Inr st1)
    with p f1 Cons.IH [of "Suc i" fs1 st1] show ?thesis
      by (auto split: prod.splits)
  qed
qed


lemma convert_loop_returns:
  assumes "\<forall>f \<in> set files. butlast f = INPUT_FOLDER \<and> is_file fs f"
  shows "\<exists>fs' ev st'. convert_loop pil n i files fs st = (fs', ev, Inr st')"
  using assms
proof (induction files arbitrary: i fs st)
  case Nil
  show ?case by simp
next
  case (Cons f rest)
  from Cons.prems obtain b where fb: "map_of fs f = Some (File b)"
    by (auto simp: is_file_def split: option.splits node.splits)
  obtain fs1 ev1 st1 where p: "process_file pil n i f fs st = (fs1, ev1, Inr st1)"
    using process_file_returns [OF fb] by blast
  have "\<forall>g \<in> set rest. butlast g = INPUT_FOLDER \<and> is_file fs1 g"
  proof
    fix g assume g: "g \<in> set rest"
    with Cons.prems have bg: "butlast g = INPUT_FOLDER" and ig: "is_file fs g" by auto
    have "g \<noteq> output_file_of f" using bg output_file_of_not_input by blast
    from process_file_frame [OF this, of pil n i fs st] p
    have "map_of fs1 g = map_of fs g" by simp
    with bg ig show "butlast g = INPUT_FOLDER \<and> is_file fs1 g" by (simp add: is_file_def)
  qed
  from Cons.IH [OF this, of "Suc i" st1] obtain fs2 ev2 st2 where
    "convert_loop pil n (Suc i) rest fs1 st1 = (fs2, ev2, Inr st2)" by blast
  with p show ?case by simp
qed

subsection \<open>Folder setup, discovery and the run after them\<close>

lemma mkdir_other: "mkdir fs p = Inr fs' \<Longrightarrow> q \<noteq> p \<Longrightarrow> map_of fs' q = map_of fs q"
  by (auto simp: mkdir_def map_add_def split: option.splits node.splits)

lemma create_folders_events:
  "create_folders fs = (fs1, Inr ev) \<Longrightarrow> ev = [Folder_In INPUT_FOLDER, Folder_Out OUTPUT_FOLDER]"
  by (auto simp: create_folders_def split: sum.splits)

lemma create_folders_frame:
  assumes "q \<noteq> INPUT_FOLDER" and "q \<noteq> OUTPUT_FOLDER"
  shows "map_of (fst (create_folders fs)) q = map_of fs q"
  using assms by (auto simp: create_folders_def split: sum.splits dest!: mkdir_other)

lemma iterdir_entries:
  "iterdir fs d = Inr entries \<Longrightarrow> p \<in> set entries \<Longrightarrow> butlast p = d \<and> p \<noteq> []"
  by (auto simp: iterdir_def split: option.splits node.splits if_splits)

lemma select_files_set:
  "set (select_files fs formats entries)
     = {f \<in> set entries. is_file fs f \<and> lower (suffix (name f)) \<in> formats}"
  by (auto simp: select_files_def)

lemma summary_eq:
  "summary n st =
     ([Summary_Header, Converted_Count (success_count st) n,
       Input_Total (total_input_size st), Output_Total (total_output_size st)]
      @ (if total_input_size st > 0
         then [Savings (total_input_size st - total_output_size st)
                 ((total_input_size st - total_output_size st) / total_input_size st * 100)]
         else [])
      @ [Saved_In OUTPUT_FOLDER], Inr ())"
  by (simp add: summary_def percent_saved_pos Let_def)

lemma main_banner_raises:
  assumes "\<not> stdout Title"
  shows "main stdout pil h fs = (fs, [Rule], Raised ''UnicodeEncodeError'')"
  using assms by (simp add: main_def)

lemma main_raises:
  assumes "stdout Title" and "create_folders fs = (fs1, Inl e)"
  shows "main stdout pil h fs = (fs1, [Rule, Title, Rule], Raised e)"
  using assms by (simp add: main_def)

lemma main_listing_raises:
  assumes "stdout Title" and "create_folders fs = (fs1, Inr ev1)"
    and "iterdir fs1 INPUT_FOLDER = Inl e"
  shows "main stdout pil h fs = (fs1, [Rule, Title, Rule] @ ev1, Raised e)"
  using assms by (simp add: main_def)

lemma main_no_images:
  assumes "stdout Title"
    and "create_folders fs = (fs1, Inr ev1)"
    and "iterdir fs1 INPUT_FOLDER = Inr entries"
    and "select_files fs1 (all_formats h) entries = []"
  shows "main stdout pil h fs =
           (fs1,
            [Rule, Title, Rule] @ ev1 @
              (if select_files fs1 HEIC_FORMATS entries \<noteq> [] \<and> \<not> h
               then [Heic_Warning (length (select_files fs1 HEIC_FORMATS entries)), Heic_Hint]
               else [])
              @ [No_Images INPUT_FOLDER, Formats (all_formats h)],
            Returned)"
  using assms by (simp add: main_def Let_def)

lemma main_with_images:
  assumes so: "stdout Title"
    and cf: "create_folders fs = (fs1, Inr ev1)"
    and it: "iterdir fs1 INPUT_FOLDER = Inr entries"
    and ne: "select_files fs1 (all_formats h) entries \<noteq> []"
  shows "\<exists>fs2 ev2 st.
           convert_loop pil (length (select_files fs1 (all_formats h) entries)) 1
             (select_files fs1 (all_formats h) entries) fs1
             \<lparr>success_count = 0, total_input_size = 0, total_output_size = 0\<rparr>
             = (fs2, ev2, Inr st)
           \<and> main stdout pil h fs =
             (fs2,
              [Rule, Title, Rule] @ ev1 @
                (if select_files fs1 HEIC_FORMATS entries \<noteq> [] \<and> \<not> h
                 then [Heic_Warning (length (select_files fs1 HEIC_FORMATS entries)), Heic_Hint]
                 else [])
                @ [Found (length (select_files fs1 (all_formats h) entries))] @ ev2
                @ fst (summary (length (select_files fs1 (all_formats h) entries)) st),
              Returned)"
proof -
  let ?imgs = "select_files fs1 (all_formats h) entries"
  have "\<forall>f \<in> set ?imgs. butlast f = INPUT_FOLDER \<and> is_file fs1 f"
    using iterdir_entries [OF it] by (auto simp: select_files_set)
  from convert_loop_returns [OF this]
  obtain fs2 ev2 st where
    l: "convert_loop pil (length ?imgs) 1 ?imgs fs1
          \<lparr>success_count = 0, total_input_size = 0, total_output_size = 0\<rparr> = (fs2, ev2, Inr st)"
    by blast
  have "main stdout pil h fs =
             (fs2,
              [Rule, Title, Rule] @ ev1 @
                (if select_files fs1 HEIC_FORMATS entries \<noteq> [] \<and> \<not> h
                 then [Heic_Warning (length (select_files fs1 HEIC_FORMATS entries)), Heic_Hint]
                 else [])
                @ [Found (length ?imgs)] @ ev2 @ fst (summary (length ?imgs) st),
              Returned)"
    using so cf it l ne by (simp add: main_def Let_def summary_eq)
  with l show ?thesis by blast
qed

lemma main_returns:
  assumes "stdout Title"
    and "create_folders fs = (fs1, Inr ev1)"
    and "iterdir fs1 INPUT_FOLDER = Inr entries"
  shows "snd (snd (main stdout pil h fs)) = Returned"
proof (cases "select_files fs1 (all_formats h) entries = []")
  case True
  from main_no_images [where stdout = stdout, OF assms True] show ?thesis by simp
next
  case False
  from main_with_images [where stdout = stdout and pil = pil, OF assms False] show ?thesis by auto
qed

lemma main_frame:
  assumes "q \<noteq> INPUT_FOLDER" and "q \<noteq> OUTPUT_FOLDER" and "butlast q \<noteq> OUTPUT_FOLDER"
  shows "map_of (fst (main stdout pil h fs)) q = map_of fs q"
proof (cases "stdout Title")
  case False
  then show ?thesis by (simp add: main_banner_raises)
next
  case so: True
  obtain fs1 r where cf: "create_folders fs = (fs1, r)"
    by (cases "create_folders fs") auto
  have f1: "map_of fs1 q = map_of fs q"
    using create_folders_frame [OF assms(1,2), of fs] cf by simp
  show ?thesis
  proof (cases r)
    case (Inl e)
    with cf f1 so show ?thesis by (simp add: main_raises)
  next
    case (Inr ev1)
    with cf have cf': "create_folders fs = (fs1, Inr ev1)" by simp
    show ?thesis
    proof (cases "iterdir fs1 INPUT_FOLDER")
      case (Inl e)
      from main_listing_raises [where stdout = stdout, OF so cf' Inl] f1 show ?thesis by simp
    next
      case it: (Inr entries)
      show ?thesis
      proof (cases "select_files fs1 (all_formats h) entries = []")
        case True
        from main_no_images [where stdout = stdout, OF so cf' it True] f1 show ?thesis by simp
      next
        case False
        from main_with_images [where stdout = stdout and pil = pil, OF so cf' it False] obtain fs2 ev2 st where
          l: "convert_loop pil (length (select_files fs1 (all_formats h) entries)) 1
               (select_files fs1 (all_formats h) entries) fs1
               \<lparr>success_count = 0, total_input_size = 0, total_output_size = 0\<rparr>
               = (fs2, ev2, Inr st)" and m: "fst (main stdout pil h fs) = fs2" by auto
        from convert_loop_frame [OF assms(3), of pil
            "length (select_files fs1 (all_formats h) entries)" 1
            "select_files fs1 (all_formats h) entries" fs1
            "\<lparr>success_count = 0, total_input_size = 0, total_output_size = 0\<rparr>"] l
        have "map_of fs2 q = map_of fs1 q" by simp
        with m f1 show ?thesis by simp
      qed
    qed
  qed
qed

subsection \<open>Discovery\<close>

lemma is_file_listed: "is_file fs f \<Longrightarrow> f \<in> set (map fst fs)"
  by (force simp: is_file_def split: option.splits node.splits dest: map_of_SomeD)


subsection \<open>What a successful conversion leaves at the output path\<close>

lemma save_result:
  "save pil fs img p fmt quality l = (fs', Inr u)
     \<Longrightarrow> \<exists>b. pil_save pil img fmt quality l (map_of fs p) = Inr b
             \<and> fs' = set_node fs p (Some (File b))"
  by (auto simp: save_def split: sum.splits prod.splits simp del: set_node.simps)

lemma convert_body_result:
  "convert_body pil fs inp out quality = (fs', Inr u)
     \<Longrightarrow> \<exists>img l b. pil_save pil img ''WEBP'' quality l (map_of fs out) = Inr b
             \<and> fs' = set_node fs out (Some (File b))"
  by (auto simp: convert_body_def split: sum.splits if_splits dest!: save_result
      simp del: set_node.simps)

subsection \<open>The counters of the loop\<close>

lemma converted_sizes_simps:
  "converted_sizes [] = []"
  "converted_sizes (ev @ ev') = converted_sizes ev @ converted_sizes ev'"
  "converted_sizes (Converted a b r # ev) = (a, b) # converted_sizes ev"
  "converted_sizes (Converting i n nm # ev) = converted_sizes ev"
  "converted_sizes (Conversion_Error nm e # ev) = converted_sizes ev"
  "converted_sizes (Blank_Line # ev) = converted_sizes ev"
  by (simp_all add: converted_sizes_def)

lemma convert_to_webp_events:
  "convert_to_webp pil fs inp out quality = (fs2, ev2, ok) \<Longrightarrow> converted_sizes ev2 = []"
  by (auto simp: convert_to_webp_def try_except_def converted_sizes_simps
      split: sum.splits prod.splits)

lemma process_file_totals:
  assumes "map_of fs f = Some (File b)"
  shows "\<exists>fs' ev st'. process_file pil n i f fs st = (fs', ev, Inr st')
           \<and> total_input_size st' = total_input_size st + projr (get_file_size_mb fs f)
           \<and> total_output_size st' =
               total_output_size st + sum_list (map snd (converted_sizes ev))
           \<and> success_count st' = success_count st + length (converted_sizes ev)"
proof -
  obtain fs2 ev2 ok where c: "convert_to_webp pil fs f (output_file_of f) 85 = (fs2, ev2, ok)"
    by (cases "convert_to_webp pil fs f (output_file_of f) 85") auto
  note e = convert_to_webp_events [OF c]
  show ?thesis
  proof (cases ok)
    case True
    with c have "convert_to_webp pil fs f (output_file_of f) 85 = (fs2, ev2, True)" by simp
    then obtain b' where "map_of fs2 (output_file_of f) = Some (File b')"
      using convert_to_webp_ok by blast
    with c True assms e show ?thesis
      by (simp add: process_file_def get_file_size_mb_file file_reduction_eq Let_def
          converted_sizes_simps)
  next
    case False
    with c assms e show ?thesis
      by (simp add: process_file_def get_file_size_mb_file Let_def converted_sizes_simps)
  qed
qed

lemma convert_loop_totals:
  assumes "\<forall>f \<in> set files. butlast f = INPUT_FOLDER \<and> is_file fs f"
  shows "\<exists>fs' ev st'. convert_loop pil n i files fs st = (fs', ev, Inr st')
           \<and> total_input_size st' =
               total_input_size st + sum_list (map (\<lambda>f. projr (get_file_size_mb fs f)) files)
           \<and> total_output_size st' =
               total_output_size st + sum_list (map snd (converted_sizes ev))
           \<and> success_count st' = success_count st + length (converted_sizes ev)"
  using assms
proof (induction files arbitrary: i fs st)
  case Nil
  show ?case by (simp add: converted_sizes_simps)
next
  case (Cons f rest)
  from Cons.prems obtain b where fb: "map_of fs f = Some (File b)"
    by (auto simp: is_file_def split: option.splits node.splits)
  from process_file_totals [OF fb, of pil n i st] obtain fs1 ev1 st1 where
    p: "process_file pil n i f fs st = (fs1, ev1, Inr st1)"
    and p1: "total_input_size st1 = total_input_size st + projr (get_file_size_mb fs f)"
    and p2: "total_output_size st1 =
               total_output_size st + sum_list (map snd (converted_sizes ev1))"
    and p3: "success_count st1 = success_count st + length (converted_sizes ev1)"
    by blast
  have same: "\<And>g. g \<in> set rest \<Longrightarrow> map_of fs1 g = map_of fs g"
  proof -
    fix g assume "g \<in> set rest"
    with Cons.prems have "butlast g = INPUT_FOLDER" by simp
    then have "g \<noteq> output_file_of f" using output_file_of_not_input by blast
    from process_file_frame [OF this, of pil n i fs st] p
    show "map_of fs1 g = map_of fs g" by simp
  qed
  have pre: "\<forall>g \<in> set rest. butlast g = INPUT_FOLDER \<and> is_file fs1 g"
    using Cons.prems same by (simp add: is_file_def)
  have sizes: "map (\<lambda>g. projr (get_file_size_mb fs1 g)) rest
                 = map (\<lambda>g. projr (get_file_size_mb fs g)) rest"
    using same by (simp add: get_file_size_mb_def)
  from Cons.IH [OF pre, of "Suc i" st1] obtain fs2 ev2 st2 where
    l: "convert_loop pil n (Suc i) rest fs1 st1 = (fs2, ev2, Inr st2)"
    and l1: "total_input_size st2 =
               total_input_size st1
                 + sum_list (map (\<lambda>g. projr (get_file_size_mb fs1 g)) rest)"
    and l2: "total_output_size st2 =
               total_output_size st1 + sum_list (map snd (converted_sizes ev2))"
    and l3: "success_count st2 = success_count st1 + length (converted_sizes ev2)"
    by blast
  have "convert_loop pil n i (f # rest) fs st = (fs2, ev1 @ ev2, Inr st2)"
    using p l by simp
  moreover have "total_input_size st2 =
      total_input_size st + sum_list (map (\<lambda>g. projr (get_file_size_mb fs g)) (f # rest))"
    using p1 l1 sizes by simp
  moreover have "total_output_size st2 =
      total_output_size st + sum_list (map snd (converted_sizes (ev1 @ ev2)))"
    using p2 l2 by (simp add: converted_sizes_simps)
  moreover have "success_count st2 = success_count st + length (converted_sizes (ev1 @ ev2))"
    using p3 l3 by (simp add: converted_sizes_simps)
  ultimately show ?case by blast
qed

subsection \<open>Unfolding a concrete run\<close>

lemmas demo_defs = demo_pillow_def demo_fs_def INPUT_FOLDER_def OUTPUT_FOLDER_def
  output_file_of_def name_def stem_def suffix_def lower_def lower_char_def
  get_file_size_mb_def convert_to_webp_def try_except_def convert_body_def image_open_def
  save_def

lemma utf8_console_all: "utf8_console e"
  by (simp add: utf8_console_def)

lemma demo_create_folders:
  "create_folders demo_fs = (demo_fs, Inr [Folder_In INPUT_FOLDER, Folder_Out OUTPUT_FOLDER])"
  by (simp add: create_folders_def mkdir_def demo_fs_def INPUT_FOLDER_def OUTPUT_FOLDER_def)

lemma demo_iterdir:
  "iterdir demo_fs INPUT_FOLDER =
     Inr [INPUT_FOLDER @ [''photo.JPG''], INPUT_FOLDER @ [''icon.png''],
          INPUT_FOLDER @ [''broken.gif''], INPUT_FOLDER @ [''scan.heic''],
          INPUT_FOLDER @ [''notes.txt''], INPUT_FOLDER @ [''album.png'']]"
  by (simp add: iterdir_def demo_fs_def INPUT_FOLDER_def OUTPUT_FOLDER_def)

lemma demo_image_files:
  "select_files demo_fs (all_formats False)
     [INPUT_FOLDER @ [''photo.JPG''], INPUT_FOLDER @ [''icon.png''],
      INPUT_FOLDER @ [''broken.gif''], INPUT_FOLDER @ [''scan.heic''],
      INPUT_FOLDER @ [''notes.txt''], INPUT_FOLDER @ [''album.png'']]
   = [INPUT_FOLDER @ [''photo.JPG''], INPUT_FOLDER @ [''icon.png''],
      INPUT_FOLDER @ [''broken.gif'']]"
  by (simp add: select_files_def all_formats_def SUPPORTED_FORMATS_def is_file_def demo_fs_def
      INPUT_FOLDER_def OUTPUT_FOLDER_def name_def suffix_def lower_def lower_char_def)

lemma demo_heic_files:
  "select_files demo_fs HEIC_FORMATS
     [INPUT_FOLDER @ [''photo.JPG''], INPUT_FOLDER @ [''icon.png''],
      INPUT_FOLDER @ [''broken.gif''], INPUT_FOLDER @ [''scan.heic''],
      INPUT_FOLDER @ [''notes.txt''], INPUT_FOLDER @ [''album.png'']]
   = [INPUT_FOLDER @ [''scan.heic'']]"
  by (simp add: select_files_def HEIC_FORMATS_def is_file_def demo_fs_def
      INPUT_FOLDER_def OUTPUT_FOLDER_def name_def suffix_def lower_def lower_char_def)

lemma demo_loop:
  "convert_loop demo_pillow 3 1
     [INPUT_FOLDER @ [''photo.JPG''], INPUT_FOLDER @ [''icon.png''],
      INPUT_FOLDER @ [''broken.gif'']] demo_fs
     \<lparr>success_count = 0, total_input_size = 0, total_output_size = 0\<rparr>
   = ([(INPUT_FOLDER, Dir True), (OUTPUT_FOLDER, Dir True),
       (INPUT_FOLDER @ [''photo.JPG''], File ''RGB:0123456789''),
       (INPUT_FOLDER @ [''icon.png''], File ''RGBA:abc''),
       (INPUT_FOLDER @ [''broken.gif''], File []),
       (INPUT_FOLDER @ [''scan.heic''], File ''RGB:xx''),
       (INPUT_FOLDER @ [''notes.txt''], File ''hello''),
       (INPUT_FOLDER @ [''album.png''], Dir True),
       (OUTPUT_FOLDER @ [''icon.webp''], File ''RG''),
       (OUTPUT_FOLDER @ [''photo.webp''], File ''RG'')],
      [Converting 1 3 ''photo.JPG'', Converted (7 / 524288) (1 / 524288) (600 / 7),
       Converting 2 3 ''icon.png'', Converted (1 / 131072) (1 / 524288) 75,
       Converting 3 3 ''broken.gif'',
       Conversion_Error ''broken.gif'' ''cannot identify image file'', Blank_Line],
      Inr \<lparr>success_count = 2, total_input_size = 11 / 524288,
           total_output_size = 1 / 262144\<rparr>)"
  by (simp add: process_file_def percent_saved_def truediv_def file_reduction_def
      demo_defs Let_def)

lemma demo_main:
  "main utf8_console demo_pillow False demo_fs =
    ([(INPUT_FOLDER, Dir True), (OUTPUT_FOLDER, Dir True),
      (INPUT_FOLDER @ [''photo.JPG''], File ''RGB:0123456789''),
      (INPUT_FOLDER @ [''icon.png''], File ''RGBA:abc''),
      (INPUT_FOLDER @ [''broken.gif''], File []),
      (INPUT_FOLDER @ [''scan.heic''], File ''RGB:xx''),
      (INPUT_FOLDER @ [''notes.txt''], File ''hello''),
      (INPUT_FOLDER @ [''album.png''], Dir True),
      (OUTPUT_FOLDER @ [''icon.webp''], File ''RG''),
      (OUTPUT_FOLDER @ [''photo.webp''], File ''RG'')],
     [Rule, Title, Rule, Folder_In INPUT_FOLDER, Folder_Out OUTPUT_FOLDER,
      Heic_Warning 1, Heic_Hint, Found 3,
      Converting 1 3 ''photo.JPG'', Converted (7 / 524288) (1 / 524288) (600 / 7),
      Converting 2 3 ''icon.png'', Converted (1 / 131072) (1 / 524288) 75,
      Converting 3 3 ''broken.gif'',
      Conversion_Error ''broken.gif'' ''cannot identify image file'', Blank_Line,
      Summary_Header, Converted_Count 2 3, Input_Total (11 / 524288),
      Output_Total (1 / 262144), Savings (9 / 524288) (900 / 11), Saved_In OUTPUT_FOLDER],
     Returned)"
proof -
  note l = demo_loop [unfolded numeral_3_eq_3 One_nat_def]
  show ?thesis
    by (simp add: main_def utf8_console_def demo_create_folders demo_iterdir demo_image_files
        demo_heic_files l summary_eq Let_def del: convert_loop.simps)
qed

lemma demo_image_files_heic:
  "select_files demo_fs (all_formats True)
     [INPUT_FOLDER @ [''photo.JPG''], INPUT_FOLDER @ [''icon.png''],
      INPUT_FOLDER @ [''broken.gif''], INPUT_FOLDER @ [''scan.heic''],
      INPUT_FOLDER @ [''notes.txt''], INPUT_FOLDER @ [''album.png'']]
   = [INPUT_FOLDER @ [''photo.JPG''], INPUT_FOLDER @ [''icon.png''],
      INPUT_FOLDER @ [''broken.gif''], INPUT_FOLDER @ [''scan.heic'']]"
  by (simp add: select_files_def all_formats_def SUPPORTED_FORMATS_def HEIC_FORMATS_def
      is_file_def demo_fs_def INPUT_FOLDER_def OUTPUT_FOLDER_def name_def suffix_def lower_def
      lower_char_def)

lemma empty_image_main:
  "main utf8_console demo_pillow False empty_image_fs =
     (empty_image_fs,
      [Rule, Title, Rule, Folder_In INPUT_FOLDER, Folder_Out OUTPUT_FOLDER, Found 1,
       Converting 1 1 ''broken.gif'',
       Conversion_Error ''broken.gif'' ''cannot identify image file'', Blank_Line,
       Summary_Header, Converted_Count 0 1, Input_Total 0, Output_Total 0,
       Saved_In OUTPUT_FOLDER],
      Returned)"
  by (simp add: main_def utf8_console_def create_folders_def mkdir_def iterdir_def
      select_files_def
      all_formats_def SUPPORTED_FORMATS_def HEIC_FORMATS_def is_file_def empty_image_fs_def
      process_file_def summary_def
      INPUT_FOLDER_def OUTPUT_FOLDER_def output_file_of_def name_def stem_def suffix_def
      lower_def lower_char_def get_file_size_mb_def convert_to_webp_def try_except_def
      convert_body_def image_open_def demo_pillow_def Let_def)

lemma empty_image_setup:
  "create_folders empty_image_fs
     = (empty_image_fs, Inr [Folder_In INPUT_FOLDER, Folder_Out OUTPUT_FOLDER])"
  "iterdir empty_image_fs INPUT_FOLDER = Inr [INPUT_FOLDER @ [''broken.gif'']]"
  "select_files empty_image_fs (all_formats False) [INPUT_FOLDER @ [''broken.gif'']]
     = [INPUT_FOLDER @ [''broken.gif'']]"
  by (simp_all add: create_folders_def mkdir_def iterdir_def select_files_def all_formats_def
      SUPPORTED_FORMATS_def is_file_def empty_image_fs_def INPUT_FOLDER_def OUTPUT_FOLDER_def
      name_def suffix_def lower_def lower_char_def)

lemma no_image_setup:
  "create_folders [] = ([(INPUT_FOLDER, Dir True), (OUTPUT_FOLDER, Dir True)],
                        Inr [Folder_In INPUT_FOLDER, Folder_Out OUTPUT_FOLDER])"
  "iterdir [(INPUT_FOLDER, Dir True), (OUTPUT_FOLDER, Dir True)] INPUT_FOLDER = Inr []"
  by (simp_all add: create_folders_def mkdir_def iterdir_def INPUT_FOLDER_def
      OUTPUT_FOLDER_def)

lemma demo_sizes:
  "is_file demo_fs (INPUT_FOLDER @ [''photo.JPG''])"
  "is_file demo_fs (INPUT_FOLDER @ [''icon.png''])"
  "is_file demo_fs (INPUT_FOLDER @ [''broken.gif''])"
  "get_file_size_mb demo_fs (INPUT_FOLDER @ [''photo.JPG'']) = Inr (14 / 1048576)"
  "get_file_size_mb demo_fs (INPUT_FOLDER @ [''icon.png'']) = Inr (8 / 1048576)"
  "get_file_size_mb demo_fs (INPUT_FOLDER @ [''broken.gif'']) = Inr 0"
  by (simp_all add: is_file_def get_file_size_mb_def demo_fs_def INPUT_FOLDER_def
      OUTPUT_FOLDER_def)

section \<open>The claims\<close>

text \<open>
  C7.  For a file that was converted, the printed reduction is
  \<open>(input - output) / input * 100\<close> when the input size is positive and \<open>0\<close> when
  it is not; the expression of line 127 never raises \<open>ZeroDivisionError\<close>, and the
  iteration ends with the line that carries the two sizes and this reduction.
\<close>

theorem reduction_guarded:
  assumes "get_file_size_mb fs f = Inr input_size"
    and "convert_to_webp pil fs f (output_file_of f) 85 = (fs2, ev2, True)"
    and "get_file_size_mb fs2 (output_file_of f) = Inr output_size"
  shows "file_reduction input_size output_size =
           Inr (if 0 < input_size then (input_size - output_size) / input_size * 100 else 0)
       \<and> process_file pil n i f fs st =
           (fs2,
            Converting i n (name f) # ev2 @
              [Converted input_size output_size
                 (if 0 < input_size then (input_size - output_size) / input_size * 100 else 0)],
            Inr \<lparr>success_count = success_count st + 1,
                 total_input_size = total_input_size st + input_size,
                 total_output_size = total_output_size st + output_size\<rparr>)"
  using assms by (simp add: process_file_def file_reduction_eq Let_def)

theorem reduction_guarded_witness:
  "get_file_size_mb demo_fs (INPUT_FOLDER @ [''icon.png'']) = Inr (8 / 1048576)
   \<and> file_reduction (8 / 1048576) (2 / 1048576) = Inr 75
   \<and> process_file demo_pillow 3 2 (INPUT_FOLDER @ [''icon.png'']) demo_fs
        \<lparr>success_count = 1, total_input_size = 0, total_output_size = 0\<rparr>
      = (set_node demo_fs (OUTPUT_FOLDER @ [''icon.webp'']) (Some (File ''RG'')),
         [Converting 2 3 ''icon.png'', Converted (8 / 1048576) (2 / 1048576) 75],
         Inr \<lparr>success_count = 2, total_input_size = 8 / 1048576,
              total_output_size = 2 / 1048576\<rparr>)"
proof -
  let ?f = "INPUT_FOLDER @ [''icon.png'']"
  let ?fs2 = "set_node demo_fs (OUTPUT_FOLDER @ [''icon.webp'']) (Some (File ''RG''))"
  have h1: "get_file_size_mb demo_fs ?f = Inr (8 / 1048576)"
    by (simp add: demo_defs)
  have h2: "convert_to_webp demo_pillow demo_fs ?f (output_file_of ?f) 85 = (?fs2, [], True)"
    by (simp add: demo_defs)
  have h3: "get_file_size_mb ?fs2 (output_file_of ?f) = Inr (2 / 1048576)"
    by (simp add: demo_defs)
  have n: "name ?f = ''icon.png''" by (simp add: name_def)
  show ?thesis
    using reduction_guarded [OF h1 h2 h3, of 3 2
        "\<lparr>success_count = 1, total_input_size = 0, total_output_size = 0\<rparr>"] h1 n
    by simp
qed

text \<open>
  C1.  For an image that \<open>Image.open\<close> decodes: in mode \<open>RGBA\<close> or \<open>LA\<close>, or in mode
  \<open>P\<close> with a \<open>transparency\<close> entry in its info, the image itself is saved as WEBP
  at the given quality with \<open>lossless=False\<close>; otherwise an image that is not in mode
  \<open>RGB\<close> is converted to \<open>RGB\<close> and the converted image is saved as WEBP at the given
  quality, and an image in mode \<open>RGB\<close> is saved as it is.
\<close>

theorem convert_to_webp_policy:
  assumes "image_open pil fs input_path = Inr img"
  shows "(mode img = ''RGBA'' \<or> mode img = ''LA''
            \<or> (mode img = ''P'' \<and> ''transparency'' \<in> set (info img))
          \<longrightarrow> convert_to_webp pil fs input_path output_path quality =
                try_except (name input_path)
                  (save pil fs img output_path ''WEBP'' quality (Some False)))
       \<and> (\<not> (mode img = ''RGBA'' \<or> mode img = ''LA''
                \<or> (mode img = ''P'' \<and> ''transparency'' \<in> set (info img)))
            \<and> mode img \<noteq> ''RGB''
          \<longrightarrow> convert_to_webp pil fs input_path output_path quality =
                try_except (name input_path)
                  (case pil_convert pil img ''RGB'' of
                     Inl e \<Rightarrow> (fs, Inl e)
                   | Inr rgb \<Rightarrow> save pil fs rgb output_path ''WEBP'' quality None))
       \<and> (mode img = ''RGB''
          \<longrightarrow> convert_to_webp pil fs input_path output_path quality =
                try_except (name input_path)
                  (save pil fs img output_path ''WEBP'' quality None))"
  using assms by (simp add: convert_to_webp_def convert_body_def)

theorem convert_to_webp_policy_witness:
  "image_open demo_pillow demo_fs (INPUT_FOLDER @ [''icon.png''])
     = Inr \<lparr>mode = ''RGBA'', info = [], pixels = ''RGBA:abc''\<rparr>
   \<and> convert_to_webp demo_pillow demo_fs (INPUT_FOLDER @ [''icon.png''])
        (OUTPUT_FOLDER @ [''icon.webp'']) 85
     = try_except ''icon.png''
         (save demo_pillow demo_fs \<lparr>mode = ''RGBA'', info = [], pixels = ''RGBA:abc''\<rparr>
            (OUTPUT_FOLDER @ [''icon.webp'']) ''WEBP'' 85 (Some False))
   \<and> image_open demo_pillow [(INPUT_FOLDER @ [''gray.bmp''], File ''L:gg'')]
        (INPUT_FOLDER @ [''gray.bmp''])
     = Inr \<lparr>mode = ''L'', info = [], pixels = ''L:gg''\<rparr>
   \<and> convert_to_webp demo_pillow [(INPUT_FOLDER @ [''gray.bmp''], File ''L:gg'')]
        (INPUT_FOLDER @ [''gray.bmp'']) (OUTPUT_FOLDER @ [''gray.webp'']) 85
     = try_except ''gray.bmp''
         (save demo_pillow [(INPUT_FOLDER @ [''gray.bmp''], File ''L:gg'')]
            \<lparr>mode = ''RGB'', info = [], pixels = ''L:gg''\<rparr>
            (OUTPUT_FOLDER @ [''gray.webp'']) ''WEBP'' 85 None)
   \<and> image_open demo_pillow demo_fs (INPUT_FOLDER @ [''photo.JPG''])
     = Inr \<lparr>mode = ''RGB'', info = [], pixels = ''RGB:0123456789''\<rparr>
   \<and> convert_to_webp demo_pillow demo_fs (INPUT_FOLDER @ [''photo.JPG''])
        (OUTPUT_FOLDER @ [''photo.webp'']) 85
     = try_except ''photo.JPG''
         (save demo_pillow demo_fs \<lparr>mode = ''RGB'', info = [], pixels = ''RGB:0123456789''\<rparr>
            (OUTPUT_FOLDER @ [''photo.webp'']) ''WEBP'' 85 None)"
proof -
  let ?gfs = "[(INPUT_FOLDER @ [''gray.bmp''], File ''L:gg'')]"
  have a: "image_open demo_pillow demo_fs (INPUT_FOLDER @ [''icon.png''])
             = Inr \<lparr>mode = ''RGBA'', info = [], pixels = ''RGBA:abc''\<rparr>"
    by (simp add: image_open_def demo_pillow_def demo_fs_def INPUT_FOLDER_def OUTPUT_FOLDER_def)
  have g: "image_open demo_pillow ?gfs (INPUT_FOLDER @ [''gray.bmp''])
             = Inr \<lparr>mode = ''L'', info = [], pixels = ''L:gg''\<rparr>"
    by (simp add: image_open_def demo_pillow_def INPUT_FOLDER_def)
  have r: "image_open demo_pillow demo_fs (INPUT_FOLDER @ [''photo.JPG''])
             = Inr \<lparr>mode = ''RGB'', info = [], pixels = ''RGB:0123456789''\<rparr>"
    by (simp add: image_open_def demo_pillow_def demo_fs_def INPUT_FOLDER_def OUTPUT_FOLDER_def)
  have c: "pil_convert demo_pillow \<lparr>mode = ''L'', info = [], pixels = ''L:gg''\<rparr> ''RGB''
             = Inr \<lparr>mode = ''RGB'', info = [], pixels = ''L:gg''\<rparr>"
    by (simp add: demo_pillow_def)
  have n: "name (INPUT_FOLDER @ [''icon.png'']) = ''icon.png''"
    "name (INPUT_FOLDER @ [''gray.bmp'']) = ''gray.bmp''"
    "name (INPUT_FOLDER @ [''photo.JPG'']) = ''photo.JPG''"
    by (simp_all add: name_def)
  show ?thesis
    using convert_to_webp_policy [OF a, of "OUTPUT_FOLDER @ [''icon.webp'']" 85]
      convert_to_webp_policy [OF g, of "OUTPUT_FOLDER @ [''gray.webp'']" 85]
      convert_to_webp_policy [OF r, of "OUTPUT_FOLDER @ [''photo.webp'']" 85]
      a g r c n
    by simp
qed

text \<open>
  C2.  An error of decoding, and any error raised in the body of the \<open>try\<close> statement
  (decoding, mode conversion or encoding), makes \<open>convert_to_webp\<close> print one line with
  the name of the file and the message, and return \<open>False\<close>; the function returns a
  boolean in every case, \<open>False\<close> exactly when the body raised.  After a \<open>False\<close> the
  loop prints an empty line and goes on with the files that are left.
\<close>

theorem conversion_errors_caught:
  "(image_open pil fs input_path = Inl e
      \<longrightarrow> convert_to_webp pil fs input_path output_path quality
            = (fs, [Conversion_Error (name input_path) e], False))
   \<and> (convert_body pil fs input_path output_path quality = (fs', Inl e)
      \<longrightarrow> convert_to_webp pil fs input_path output_path quality
            = (fs', [Conversion_Error (name input_path) e], False))
   \<and> (snd (snd (convert_to_webp pil fs input_path output_path quality))
        = (\<not> isl (snd (convert_body pil fs input_path output_path quality))))
   \<and> (convert_to_webp pil fs f (output_file_of f) 85 = (fs', ev, False)
        \<and> get_file_size_mb fs f = Inr input_size
      \<longrightarrow> convert_loop pil n i (f # rest) fs st =
            (case convert_loop pil n (Suc i) rest fs'
                    (st\<lparr>total_input_size := total_input_size st + input_size\<rparr>) of
               (fs2, ev2, r) \<Rightarrow>
                 (fs2, Converting i n (name f) # ev @ Blank_Line # ev2, r)))"
  by (auto simp: convert_to_webp_def try_except_def convert_body_def process_file_def Let_def
      split: sum.splits prod.splits)

theorem conversion_errors_caught_witness:
  "image_open demo_pillow demo_fs (INPUT_FOLDER @ [''broken.gif''])
     = Inl ''cannot identify image file''
   \<and> convert_body demo_pillow demo_fs (INPUT_FOLDER @ [''broken.gif''])
        (output_file_of (INPUT_FOLDER @ [''broken.gif''])) 85
     = (demo_fs, Inl ''cannot identify image file'')
   \<and> get_file_size_mb demo_fs (INPUT_FOLDER @ [''broken.gif'']) = Inr 0
   \<and> convert_to_webp demo_pillow demo_fs (INPUT_FOLDER @ [''broken.gif''])
        (output_file_of (INPUT_FOLDER @ [''broken.gif''])) 85
     = (demo_fs, [Conversion_Error ''broken.gif'' ''cannot identify image file''], False)
   \<and> convert_loop demo_pillow 3 3 [INPUT_FOLDER @ [''broken.gif'']] demo_fs
        \<lparr>success_count = 2, total_input_size = 1, total_output_size = 1 / 2\<rparr>
     = (demo_fs,
        [Converting 3 3 ''broken.gif'',
         Conversion_Error ''broken.gif'' ''cannot identify image file'', Blank_Line],
        Inr \<lparr>success_count = 2, total_input_size = 1, total_output_size = 1 / 2\<rparr>)"
proof -
  let ?f = "INPUT_FOLDER @ [''broken.gif'']"
  have h1: "image_open demo_pillow demo_fs ?f = Inl ''cannot identify image file''"
    by (simp add: image_open_def demo_pillow_def demo_fs_def INPUT_FOLDER_def OUTPUT_FOLDER_def)
  have h2: "convert_body demo_pillow demo_fs ?f (output_file_of ?f) 85
              = (demo_fs, Inl ''cannot identify image file'')"
    using h1 by (simp add: convert_body_def)
  have h3: "get_file_size_mb demo_fs ?f = Inr 0"
    by (simp add: get_file_size_mb_def demo_fs_def INPUT_FOLDER_def OUTPUT_FOLDER_def)
  have n: "name ?f = ''broken.gif''" by (simp add: name_def)
  show ?thesis
    using conversion_errors_caught [where pil = demo_pillow and fs = demo_fs
        and input_path = ?f and output_path = "output_file_of ?f" and quality = 85
        and e = "''cannot identify image file''" and fs' = demo_fs and f = ?f
        and ev = "[Conversion_Error ''broken.gif'' ''cannot identify image file'']"
        and input_size = 0 and n = 3 and i = 3 and rest = "[]"
        and st = "\<lparr>success_count = 2, total_input_size = 1, total_output_size = 1 / 2\<rparr>"]
      h1 h2 h3 n
    by simp
qed

text \<open>
  C3, as stated, fails: with Pillow imported and a console that encodes every line,
  a regular file named \<open>do przerobienia\<close> beside the script makes \<open>mkdir\<close> raise
  \<open>FileExistsError\<close>, which nothing catches, and the interpreter ends with status 1.
\<close>

theorem exit_status_counterexample:
  "exit_status (snd (snd (program utf8_console True False demo_pillow
                            [(INPUT_FOLDER, File ''x'')]))) = 1"
  by (simp add: program_def main_def utf8_console_def create_folders_def mkdir_def)

text \<open>
  C3, amended.  When Pillow does not import, the status is 1; the two lines of
  guidance are printed before \<open>exit(1)\<close> when the console encodes the second one.
  With Pillow imported the status is 1 as well whenever an exception leaves \<open>main\<close>:
  the console cannot encode the banner of line 79, creating a folder raises, or the
  input folder cannot be listed.  When Pillow imports, the console encodes every
  line, the folders are set up and the input folder is listed, \<open>main\<close> returns and the
  status is 0, whatever Pillow does with the single files.
\<close>

theorem exit_status_conditions:
  "(\<not> pillow_imports \<longrightarrow>
      exit_status (snd (snd (program stdout pillow_imports heif_imports pil fs))) = 1
      \<and> (stdout Pillow_Hint \<longrightarrow>
           program stdout pillow_imports heif_imports pil fs
             = (fs, [Pillow_Missing, Pillow_Hint], Exited 1)))
   \<and> (pillow_imports \<and> \<not> stdout Title \<longrightarrow>
        program stdout pillow_imports heif_imports pil fs
          = (fs, [Rule], Raised ''UnicodeEncodeError'')
        \<and> exit_status (snd (snd (program stdout pillow_imports heif_imports pil fs))) = 1)
   \<and> (pillow_imports \<and> stdout Title \<and> create_folders fs = (fs1, Inl e) \<longrightarrow>
        snd (snd (program stdout pillow_imports heif_imports pil fs)) = Raised e
        \<and> exit_status (snd (snd (program stdout pillow_imports heif_imports pil fs))) = 1)
   \<and> (pillow_imports \<and> stdout Title \<and> create_folders fs = (fs1, Inr ev1)
        \<and> iterdir fs1 INPUT_FOLDER = Inl e \<longrightarrow>
        snd (snd (program stdout pillow_imports heif_imports pil fs)) = Raised e
        \<and> exit_status (snd (snd (program stdout pillow_imports heif_imports pil fs))) = 1)
   \<and> (pillow_imports \<and> (\<forall>line. stdout line) \<and> create_folders fs = (fs1, Inr ev1)
        \<and> iterdir fs1 INPUT_FOLDER = Inr entries \<longrightarrow>
        snd (snd (program stdout pillow_imports heif_imports pil fs)) = Returned
        \<and> exit_status (snd (snd (program stdout pillow_imports heif_imports pil fs))) = 0)"
proof -
  have 1: "\<not> pillow_imports \<longrightarrow>
      exit_status (snd (snd (program stdout pillow_imports heif_imports pil fs))) = 1
      \<and> (stdout Pillow_Hint \<longrightarrow>
           program stdout pillow_imports heif_imports pil fs
             = (fs, [Pillow_Missing, Pillow_Hint], Exited 1))"
    by (simp add: program_def)
  have 2: "pillow_imports \<and> \<not> stdout Title \<longrightarrow>
        program stdout pillow_imports heif_imports pil fs
          = (fs, [Rule], Raised ''UnicodeEncodeError'')
        \<and> exit_status (snd (snd (program stdout pillow_imports heif_imports pil fs))) = 1"
    by (simp add: program_def main_banner_raises)
  have 3: "pillow_imports \<and> stdout Title \<and> create_folders fs = (fs1, Inl e) \<longrightarrow>
        snd (snd (program stdout pillow_imports heif_imports pil fs)) = Raised e
        \<and> exit_status (snd (snd (program stdout pillow_imports heif_imports pil fs))) = 1"
    by (simp add: program_def main_raises)
  have 4: "pillow_imports \<and> stdout Title \<and> create_folders fs = (fs1, Inr ev1)
        \<and> iterdir fs1 INPUT_FOLDER = Inl e \<longrightarrow>
        snd (snd (program stdout pillow_imports heif_imports pil fs)) = Raised e
        \<and> exit_status (snd (snd (program stdout pillow_imports heif_imports pil fs))) = 1"
    using main_listing_raises [where stdout = stdout and pil = pil and h = heif_imports
        and fs = fs and ?fs1.0 = fs1 and ?ev1.0 = ev1 and e = e]
    by (simp add: program_def)
  have 5: "pillow_imports \<and> (\<forall>line. stdout line) \<and> create_folders fs = (fs1, Inr ev1)
        \<and> iterdir fs1 INPUT_FOLDER = Inr entries \<longrightarrow>
        snd (snd (program stdout pillow_imports heif_imports pil fs)) = Returned
        \<and> exit_status (snd (snd (program stdout pillow_imports heif_imports pil fs))) = 0"
    using main_returns [where stdout = stdout and pil = pil and h = heif_imports
        and fs = fs and ?fs1.0 = fs1 and ?ev1.0 = ev1 and entries = entries]
    by (simp add: program_def)
  from 1 2 3 4 5 show ?thesis by blast
qed

theorem exit_status_conditions_witness:
  "program utf8_console False True demo_pillow demo_fs
     = (demo_fs, [Pillow_Missing, Pillow_Hint], Exited 1)
   \<and> exit_status (snd (snd (program utf8_console False True demo_pillow demo_fs))) = 1
   \<and> exit_status (snd (snd (program ascii_console False True demo_pillow demo_fs))) = 1
   \<and> program ascii_console True False demo_pillow demo_fs
       = (demo_fs, [Rule], Raised ''UnicodeEncodeError'')
   \<and> exit_status (snd (snd (program ascii_console True False demo_pillow demo_fs))) = 1
   \<and> create_folders heic_blocked_fs = (heic_blocked_fs, Inl ''FileExistsError'')
   \<and> exit_status (snd (snd (program utf8_console True False demo_pillow heic_blocked_fs))) = 1
   \<and> create_folders [(INPUT_FOLDER, Dir False)]
       = ([(INPUT_FOLDER, Dir False), (OUTPUT_FOLDER, Dir True)],
          Inr [Folder_In INPUT_FOLDER, Folder_Out OUTPUT_FOLDER])
   \<and> iterdir [(INPUT_FOLDER, Dir False), (OUTPUT_FOLDER, Dir True)] INPUT_FOLDER
       = Inl ''PermissionError''
   \<and> exit_status (snd (snd (program utf8_console True False demo_pillow
                              [(INPUT_FOLDER, Dir False)]))) = 1
   \<and> create_folders demo_fs = (demo_fs, Inr [Folder_In INPUT_FOLDER, Folder_Out OUTPUT_FOLDER])
   \<and> exit_status (snd (snd (program utf8_console True False demo_pillow demo_fs))) = 0
   \<and> exit_status (snd (snd (program utf8_console True False refusing_pillow demo_fs))) = 0"
proof -
  have cb: "create_folders heic_blocked_fs = (heic_blocked_fs, Inl ''FileExistsError'')"
    by (simp add: create_folders_def mkdir_def heic_blocked_fs_def INPUT_FOLDER_def
        OUTPUT_FOLDER_def)
  have cu: "create_folders [(INPUT_FOLDER, Dir False)]
       = ([(INPUT_FOLDER, Dir False), (OUTPUT_FOLDER, Dir True)],
          Inr [Folder_In INPUT_FOLDER, Folder_Out OUTPUT_FOLDER])"
    by (simp add: create_folders_def mkdir_def INPUT_FOLDER_def OUTPUT_FOLDER_def)
  have iu: "iterdir [(INPUT_FOLDER, Dir False), (OUTPUT_FOLDER, Dir True)] INPUT_FOLDER
       = Inl ''PermissionError''"
    by (simp add: iterdir_def INPUT_FOLDER_def OUTPUT_FOLDER_def)
  have na: "\<not> ascii_console Title" "\<not> ascii_console Pillow_Hint"
    by (simp_all add: ascii_console_def)
  note a = exit_status_conditions [where stdout = utf8_console and pillow_imports = False
      and heif_imports = True and pil = demo_pillow and fs = demo_fs]
  note b = exit_status_conditions [where stdout = ascii_console and pillow_imports = False
      and heif_imports = True and pil = demo_pillow and fs = demo_fs]
  note c = exit_status_conditions [where stdout = ascii_console and pillow_imports = True
      and heif_imports = False and pil = demo_pillow and fs = demo_fs]
  note d = exit_status_conditions [where stdout = utf8_console and pillow_imports = True
      and heif_imports = False and pil = demo_pillow and fs = heic_blocked_fs
      and ?fs1.0 = heic_blocked_fs and e = "''FileExistsError''"]
  note e = exit_status_conditions [where stdout = utf8_console and pillow_imports = True
      and heif_imports = False and pil = demo_pillow and fs = "[(INPUT_FOLDER, Dir False)]"
      and ?fs1.0 = "[(INPUT_FOLDER, Dir False), (OUTPUT_FOLDER, Dir True)]"
      and ?ev1.0 = "[Folder_In INPUT_FOLDER, Folder_Out OUTPUT_FOLDER]"
      and e = "''PermissionError''"]
  note f = exit_status_conditions [where stdout = utf8_console and pillow_imports = True
      and heif_imports = False and pil = demo_pillow and fs = demo_fs
      and ?fs1.0 = demo_fs and ?ev1.0 = "[Folder_In INPUT_FOLDER, Folder_Out OUTPUT_FOLDER]"
      and entries = "[INPUT_FOLDER @ [''photo.JPG''], INPUT_FOLDER @ [''icon.png''],
          INPUT_FOLDER @ [''broken.gif''], INPUT_FOLDER @ [''scan.heic''],
          INPUT_FOLDER @ [''notes.txt''], INPUT_FOLDER @ [''album.png'']]"]
  note g = exit_status_conditions [where stdout = utf8_console and pillow_imports = True
      and heif_imports = False and pil = refusing_pillow and fs = demo_fs
      and ?fs1.0 = demo_fs and ?ev1.0 = "[Folder_In INPUT_FOLDER, Folder_Out OUTPUT_FOLDER]"
      and entries = "[INPUT_FOLDER @ [''photo.JPG''], INPUT_FOLDER @ [''icon.png''],
          INPUT_FOLDER @ [''broken.gif''], INPUT_FOLDER @ [''scan.heic''],
          INPUT_FOLDER @ [''notes.txt''], INPUT_FOLDER @ [''album.png'']]"]
  from a b c d e f g show ?thesis
    by (simp add: utf8_console_all na cb cu iu demo_create_folders demo_iterdir)
qed

text \<open>
  C10.  A path below the input folder holds after the run what it held before,
  whether the run ends normally or not; \<open>convert_to_webp\<close> changes nothing but its
  output path, which \<open>main\<close> derives inside the output folder.
\<close>

theorem input_files_untouched:
  assumes "q = INPUT_FOLDER @ below" and "below \<noteq> []"
  shows "map_of (fst (program stdout pillow_imports heif_imports pil fs)) q = map_of fs q
       \<and> (q \<noteq> output_path \<longrightarrow>
            map_of (fst (convert_to_webp pil fs input_path output_path quality)) q = map_of fs q)
       \<and> map_of (fst (convert_to_webp pil fs input_path (output_file_of input_path) quality)) q
           = map_of fs q"
proof -
  have 1: "q \<noteq> INPUT_FOLDER" using assms by simp
  have 2: "q \<noteq> OUTPUT_FOLDER" using assms by (auto simp: INPUT_FOLDER_def OUTPUT_FOLDER_def)
  have 3: "butlast q \<noteq> OUTPUT_FOLDER"
    using assms by (cases below rule: rev_cases) (auto simp: INPUT_FOLDER_def OUTPUT_FOLDER_def butlast_append)
  have 4: "q \<noteq> output_file_of input_path" using 3 butlast_output_file_of by blast
  show ?thesis
    using main_frame [OF 1 2 3] convert_to_webp_frame 4 by (simp add: program_def)
qed

theorem input_files_untouched_witness:
  "INPUT_FOLDER @ [''icon.png''] = INPUT_FOLDER @ [''icon.png''] \<and> [''icon.png''] \<noteq> []
   \<and> map_of (fst (program utf8_console True False demo_pillow demo_fs)) (INPUT_FOLDER @ [''icon.png''])
       = Some (File ''RGBA:abc'')
   \<and> map_of (fst (convert_to_webp demo_pillow demo_fs (INPUT_FOLDER @ [''icon.png''])
                    (output_file_of (INPUT_FOLDER @ [''icon.png''])) 85))
         (INPUT_FOLDER @ [''icon.png''])
       = Some (File ''RGBA:abc'')"
proof -
  have m: "map_of demo_fs (INPUT_FOLDER @ [''icon.png'']) = Some (File ''RGBA:abc'')"
    by (simp add: demo_fs_def INPUT_FOLDER_def OUTPUT_FOLDER_def)
  show ?thesis
    using input_files_untouched [where q = "INPUT_FOLDER @ [''icon.png'']"
        and below = "[''icon.png'']" and stdout = utf8_console and pillow_imports = True
        and heif_imports = False and pil = demo_pillow and fs = demo_fs
        and output_path = "output_file_of (INPUT_FOLDER @ [''icon.png''])"
        and input_path = "INPUT_FOLDER @ [''icon.png'']" and quality = 85] m
    by simp
qed

text \<open>
  C4.  The files that enter the conversion are the entries directly below the input
  folder that are regular files and whose suffix, lowered, is a recognised one.  The
  recognised suffixes are the seven of \<open>SUPPORTED_FORMATS\<close>, together with \<open>.heic\<close>
  and \<open>.heif\<close> exactly when \<open>pillow_heif\<close> was imported.
\<close>

theorem discovery_exact:
  assumes "iterdir fs INPUT_FOLDER = Inr entries"
  shows "set (select_files fs (all_formats h) entries) =
           {f. f \<noteq> [] \<and> butlast f = INPUT_FOLDER \<and> is_file fs f
                \<and> lower (suffix (name f)) \<in> all_formats h}
       \<and> all_formats h =
           {''.jpg'', ''.jpeg'', ''.png'', ''.bmp'', ''.gif'', ''.tiff'', ''.tif''}
             \<union> (if h then {''.heic'', ''.heif''} else {})
       \<and> (''.heic'' \<in> all_formats h) = h
       \<and> (''.heif'' \<in> all_formats h) = h"
proof -
  have e: "entries = [p \<leftarrow> map fst fs. p \<noteq> [] \<and> butlast p = INPUT_FOLDER]"
    using assms by (auto simp: iterdir_def split: option.splits node.splits if_splits)
  have "set (select_files fs (all_formats h) entries) =
           {f. f \<noteq> [] \<and> butlast f = INPUT_FOLDER \<and> is_file fs f
                \<and> lower (suffix (name f)) \<in> all_formats h}"
    using is_file_listed [of fs] by (auto simp: select_files_set e)
  moreover have "all_formats h =
           {''.jpg'', ''.jpeg'', ''.png'', ''.bmp'', ''.gif'', ''.tiff'', ''.tif''}
             \<union> (if h then {''.heic'', ''.heif''} else {})"
    by (auto simp: all_formats_def SUPPORTED_FORMATS_def HEIC_FORMATS_def)
  moreover have "(''.heic'' \<in> all_formats h) = h" "(''.heif'' \<in> all_formats h) = h"
    by (simp_all add: all_formats_def SUPPORTED_FORMATS_def HEIC_FORMATS_def)
  ultimately show ?thesis by blast
qed

theorem discovery_exact_witness:
  "iterdir demo_fs INPUT_FOLDER =
     Inr [INPUT_FOLDER @ [''photo.JPG''], INPUT_FOLDER @ [''icon.png''],
          INPUT_FOLDER @ [''broken.gif''], INPUT_FOLDER @ [''scan.heic''],
          INPUT_FOLDER @ [''notes.txt''], INPUT_FOLDER @ [''album.png'']]
   \<and> {f. f \<noteq> [] \<and> butlast f = INPUT_FOLDER \<and> is_file demo_fs f
           \<and> lower (suffix (name f)) \<in> all_formats False}
       = {INPUT_FOLDER @ [''photo.JPG''], INPUT_FOLDER @ [''icon.png''],
          INPUT_FOLDER @ [''broken.gif'']}
   \<and> {f. f \<noteq> [] \<and> butlast f = INPUT_FOLDER \<and> is_file demo_fs f
           \<and> lower (suffix (name f)) \<in> all_formats True}
       = {INPUT_FOLDER @ [''photo.JPG''], INPUT_FOLDER @ [''icon.png''],
          INPUT_FOLDER @ [''broken.gif''], INPUT_FOLDER @ [''scan.heic'']}
   \<and> all_formats True =
       {''.jpg'', ''.jpeg'', ''.png'', ''.bmp'', ''.gif'', ''.tiff'', ''.tif'', ''.heic'', ''.heif''}
   \<and> all_formats False =
       {''.jpg'', ''.jpeg'', ''.png'', ''.bmp'', ''.gif'', ''.tiff'', ''.tif''}"
proof -
  note a = discovery_exact [OF demo_iterdir, of False]
  note b = discovery_exact [OF demo_iterdir, of True]
  have 1: "{f. f \<noteq> [] \<and> butlast f = INPUT_FOLDER \<and> is_file demo_fs f
              \<and> lower (suffix (name f)) \<in> all_formats False}
       = {INPUT_FOLDER @ [''photo.JPG''], INPUT_FOLDER @ [''icon.png''],
          INPUT_FOLDER @ [''broken.gif'']}"
    using a by (simp add: demo_image_files)
  have 2: "{f. f \<noteq> [] \<and> butlast f = INPUT_FOLDER \<and> is_file demo_fs f
              \<and> lower (suffix (name f)) \<in> all_formats True}
       = {INPUT_FOLDER @ [''photo.JPG''], INPUT_FOLDER @ [''icon.png''],
          INPUT_FOLDER @ [''broken.gif''], INPUT_FOLDER @ [''scan.heic'']}"
    using b by (simp add: demo_image_files_heic)
  have 3: "all_formats True =
       {''.jpg'', ''.jpeg'', ''.png'', ''.bmp'', ''.gif'', ''.tiff'', ''.tif'', ''.heic'', ''.heif''}"
    using b by auto
  have 4: "all_formats False =
       {''.jpg'', ''.jpeg'', ''.png'', ''.bmp'', ''.gif'', ''.tiff'', ''.tif''}"
    using a by simp
  from demo_iterdir 1 2 3 4 show ?thesis by blast
qed




text \<open>
  C6.  The output path of an input file is the output folder joined with the stem of
  the file's name followed by \<open>.webp\<close>.  A conversion that succeeds prints nothing and
  leaves there the bytes Pillow encoded, whatever the path held before; every other
  path keeps what it held.
\<close>

theorem output_path_overwritten:
  assumes "convert_to_webp pil fs f (output_file_of f) 85 = (fs2, ev2, True)"
  shows "output_file_of f = OUTPUT_FOLDER @ [stem (name f) @ ''.webp'']
       \<and> ev2 = []
       \<and> (\<exists>img l b.
             pil_save pil img ''WEBP'' 85 l
               (map_of fs (OUTPUT_FOLDER @ [stem (name f) @ ''.webp''])) = Inr b
             \<and> map_of fs2 = (map_of fs)(OUTPUT_FOLDER @ [stem (name f) @ ''.webp''] \<mapsto> File b))"
proof -
  from assms obtain u where
    cb: "convert_body pil fs f (output_file_of f) 85 = (fs2, Inr u)" and e: "ev2 = []"
    by (auto simp: convert_to_webp_def try_except_def split: sum.splits prod.splits)
  from convert_body_result [OF cb] obtain img l b where
    s: "pil_save pil img ''WEBP'' 85 l (map_of fs (output_file_of f)) = Inr b"
    and f2: "fs2 = set_node fs (output_file_of f) (Some (File b))" by blast
  have "map_of fs2 = (map_of fs)(output_file_of f \<mapsto> File b)"
    unfolding f2 by (rule ext) (simp add: map_of_set_node del: set_node.simps)
  with s e show ?thesis by (auto simp: output_file_of_def)
qed

theorem output_path_overwritten_witness:
  "convert_to_webp demo_pillow demo_fs (INPUT_FOLDER @ [''icon.png''])
       (output_file_of (INPUT_FOLDER @ [''icon.png''])) 85
     = (set_node demo_fs (OUTPUT_FOLDER @ [''icon.webp'']) (Some (File ''RG'')), [], True)
   \<and> output_file_of (INPUT_FOLDER @ [''icon.png'']) = OUTPUT_FOLDER @ [''icon.webp'']
   \<and> map_of demo_fs (OUTPUT_FOLDER @ [''icon.webp'']) = Some (File ''old content'')
   \<and> map_of (set_node demo_fs (OUTPUT_FOLDER @ [''icon.webp'']) (Some (File ''RG'')))
        (OUTPUT_FOLDER @ [''icon.webp'']) = Some (File ''RG'')"
proof -
  let ?f = "INPUT_FOLDER @ [''icon.png'']"
  let ?fs2 = "set_node demo_fs (OUTPUT_FOLDER @ [''icon.webp'']) (Some (File ''RG''))"
  have h: "convert_to_webp demo_pillow demo_fs ?f (output_file_of ?f) 85 = (?fs2, [], True)"
    by (simp add: demo_defs)
  have st: "stem (name ?f) = ''icon''"
    by (simp add: stem_def name_def)
  have old: "map_of demo_fs (OUTPUT_FOLDER @ [''icon.webp'']) = Some (File ''old content'')"
    by (simp add: demo_fs_def INPUT_FOLDER_def OUTPUT_FOLDER_def)
  from output_path_overwritten [OF h] h old st
  show ?thesis
    by (auto simp: map_of_set_node simp del: set_node.simps)
qed

text \<open>
  C8, as stated, fails: a run that finds no image returns at line 107 and prints no
  summary.
\<close>

theorem summary_counterexample:
  "program utf8_console True False demo_pillow [] =
     ([(INPUT_FOLDER, Dir True), (OUTPUT_FOLDER, Dir True)],
      [Rule, Title, Rule, Folder_In INPUT_FOLDER, Folder_Out OUTPUT_FOLDER,
       No_Images INPUT_FOLDER, Formats (all_formats False)],
      Returned)
   \<and> Summary_Header \<notin> set (fst (snd (program utf8_console True False demo_pillow [])))"
  by (simp add: program_def main_def utf8_console_def create_folders_def mkdir_def iterdir_def
      select_files_def INPUT_FOLDER_def OUTPUT_FOLDER_def)

text \<open>
  C8, amended.  In a run that has set up its folders (so the banner before them is
  out) and listed the input folder: when no image is found, the
  program prints that there is none and the recognised formats, and that is all;
  when at least one image is found, the console ends, after the lines of the loop,
  with the summary: the number of successes out of the number of files, the total
  input size, the total output size, then, only when the total input size is
  positive, one line with the absolute and the percentage saving, and the folder the
  files were saved in.  With a total input size of 0 that line is left out as a whole.
\<close>

theorem summary_after_loop:
  assumes "stdout Title"
    and "create_folders fs = (fs1, Inr ev1)"
    and "iterdir fs1 INPUT_FOLDER = Inr entries"
  shows "(select_files fs1 (all_formats h) entries = [] \<longrightarrow>
            fst (snd (main stdout pil h fs)) =
              [Rule, Title, Rule] @ ev1 @
                (if select_files fs1 HEIC_FORMATS entries \<noteq> [] \<and> \<not> h
                 then [Heic_Warning (length (select_files fs1 HEIC_FORMATS entries)), Heic_Hint]
                 else [])
                @ [No_Images INPUT_FOLDER, Formats (all_formats h)])
       \<and> (select_files fs1 (all_formats h) entries \<noteq> [] \<longrightarrow>
            (\<exists>fs2 ev2 st before.
               convert_loop pil (length (select_files fs1 (all_formats h) entries)) 1
                 (select_files fs1 (all_formats h) entries) fs1
                 \<lparr>success_count = 0, total_input_size = 0, total_output_size = 0\<rparr>
                 = (fs2, ev2, Inr st)
               \<and> fst (snd (main stdout pil h fs)) =
                   before @ ev2 @
                   [Summary_Header,
                    Converted_Count (success_count st)
                      (length (select_files fs1 (all_formats h) entries)),
                    Input_Total (total_input_size st),
                    Output_Total (total_output_size st)]
                   @ (if 0 < total_input_size st
                      then [Savings (total_input_size st - total_output_size st)
                              ((total_input_size st - total_output_size st)
                                 / total_input_size st * 100)]
                      else [])
                   @ [Saved_In OUTPUT_FOLDER]))"
proof -
  let ?imgs = "select_files fs1 (all_formats h) entries"
  have 1: "?imgs = [] \<longrightarrow> fst (snd (main stdout pil h fs)) =
             [Rule, Title, Rule] @ ev1 @
               (if select_files fs1 HEIC_FORMATS entries \<noteq> [] \<and> \<not> h
                then [Heic_Warning (length (select_files fs1 HEIC_FORMATS entries)), Heic_Hint]
                else [])
               @ [No_Images INPUT_FOLDER, Formats (all_formats h)]"
    using main_no_images [where stdout = stdout and pil = pil and h = h, OF assms] by simp
  have 2: "?imgs \<noteq> [] \<longrightarrow>
            (\<exists>fs2 ev2 st before.
               convert_loop pil (length ?imgs) 1 ?imgs fs1
                 \<lparr>success_count = 0, total_input_size = 0, total_output_size = 0\<rparr>
                 = (fs2, ev2, Inr st)
               \<and> fst (snd (main stdout pil h fs)) =
                   before @ ev2 @
                   [Summary_Header, Converted_Count (success_count st) (length ?imgs),
                    Input_Total (total_input_size st), Output_Total (total_output_size st)]
                   @ (if 0 < total_input_size st
                      then [Savings (total_input_size st - total_output_size st)
                              ((total_input_size st - total_output_size st)
                                 / total_input_size st * 100)]
                      else [])
                   @ [Saved_In OUTPUT_FOLDER])"
  proof
    assume ne: "?imgs \<noteq> []"
    from main_with_images [where stdout = stdout and pil = pil, OF assms ne] obtain fs2 ev2 st where
      l: "convert_loop pil (length ?imgs) 1 ?imgs fs1
             \<lparr>success_count = 0, total_input_size = 0, total_output_size = 0\<rparr>
             = (fs2, ev2, Inr st)"
      and m: "main stdout pil h fs =
             (fs2,
              [Rule, Title, Rule] @ ev1 @
                (if select_files fs1 HEIC_FORMATS entries \<noteq> [] \<and> \<not> h
                 then [Heic_Warning (length (select_files fs1 HEIC_FORMATS entries)), Heic_Hint]
                 else [])
                @ [Found (length ?imgs)] @ ev2 @ fst (summary (length ?imgs) st),
              Returned)" by blast
    have "fst (snd (main stdout pil h fs)) =
            ([Rule, Title, Rule] @ ev1 @
                (if select_files fs1 HEIC_FORMATS entries \<noteq> [] \<and> \<not> h
                 then [Heic_Warning (length (select_files fs1 HEIC_FORMATS entries)), Heic_Hint]
                 else [])
                @ [Found (length ?imgs)]) @ ev2 @
              [Summary_Header, Converted_Count (success_count st) (length ?imgs),
               Input_Total (total_input_size st), Output_Total (total_output_size st)]
              @ (if 0 < total_input_size st
                 then [Savings (total_input_size st - total_output_size st)
                         ((total_input_size st - total_output_size st)
                            / total_input_size st * 100)]
                 else [])
              @ [Saved_In OUTPUT_FOLDER]"
      unfolding m by (simp add: summary_eq)
    with l show "\<exists>fs2 ev2 st before.
               convert_loop pil (length ?imgs) 1 ?imgs fs1
                 \<lparr>success_count = 0, total_input_size = 0, total_output_size = 0\<rparr>
                 = (fs2, ev2, Inr st)
               \<and> fst (snd (main stdout pil h fs)) =
                   before @ ev2 @
                   [Summary_Header, Converted_Count (success_count st) (length ?imgs),
                    Input_Total (total_input_size st), Output_Total (total_output_size st)]
                   @ (if 0 < total_input_size st
                      then [Savings (total_input_size st - total_output_size st)
                              ((total_input_size st - total_output_size st)
                                 / total_input_size st * 100)]
                      else [])
                   @ [Saved_In OUTPUT_FOLDER]" by blast
  qed
  from 1 2 show ?thesis by blast
qed

theorem summary_after_loop_witness:
  "utf8_console Title
   \<and> create_folders demo_fs = (demo_fs, Inr [Folder_In INPUT_FOLDER, Folder_Out OUTPUT_FOLDER])
   \<and> drop 15 (fst (snd (main utf8_console demo_pillow False demo_fs)))
       = [Summary_Header, Converted_Count 2 3, Input_Total (11 / 524288),
          Output_Total (1 / 262144), Savings (9 / 524288) (900 / 11), Saved_In OUTPUT_FOLDER]
   \<and> create_folders empty_image_fs
       = (empty_image_fs, Inr [Folder_In INPUT_FOLDER, Folder_Out OUTPUT_FOLDER])
   \<and> drop 9 (fst (snd (main utf8_console demo_pillow False empty_image_fs)))
       = [Summary_Header, Converted_Count 0 1, Input_Total 0, Output_Total 0,
          Saved_In OUTPUT_FOLDER]
   \<and> create_folders [] = ([(INPUT_FOLDER, Dir True), (OUTPUT_FOLDER, Dir True)],
                          Inr [Folder_In INPUT_FOLDER, Folder_Out OUTPUT_FOLDER])
   \<and> fst (snd (main utf8_console demo_pillow False []))
       = [Rule, Title, Rule, Folder_In INPUT_FOLDER, Folder_Out OUTPUT_FOLDER,
          No_Images INPUT_FOLDER, Formats (all_formats False)]"
proof -
  note a = summary_after_loop [where stdout = utf8_console and pil = demo_pillow and h = False,
      OF utf8_console_all demo_create_folders demo_iterdir]
  note b = summary_after_loop [where stdout = utf8_console and pil = demo_pillow and h = False,
      OF utf8_console_all empty_image_setup(1,2)]
  note c = summary_after_loop [where stdout = utf8_console and pil = demo_pillow and h = False,
      OF utf8_console_all no_image_setup]
  have 3: "fst (snd (main utf8_console demo_pillow False []))
       = [Rule, Title, Rule, Folder_In INPUT_FOLDER, Folder_Out OUTPUT_FOLDER,
          No_Images INPUT_FOLDER, Formats (all_formats False)]"
    using c by (simp add: select_files_def)
  from a b 3 show ?thesis
    by (simp add: utf8_console_all demo_create_folders demo_main empty_image_setup
        empty_image_main no_image_setup)
qed

text \<open>
  C9.  Over regular files of the input folder the loop does not raise; from any
  counters and for any list of such files, it adds to the total input size the size
  of every file of the list, and to the total output size and to the number of
  successes only what the lines printed for converted files carry.  The totals the
  summary prints are these counters.  One iteration whose conversion failed adds the
  size of its file to the total input size and changes nothing else; one whose
  conversion succeeded also adds the size of the written output file and one success.
\<close>

theorem totals_invariant:
  assumes "\<forall>f \<in> set files. butlast f = INPUT_FOLDER \<and> is_file fs f"
  shows "(\<exists>fs' ev st'.
            convert_loop pil n i files fs st = (fs', ev, Inr st')
            \<and> total_input_size st' =
                total_input_size st
                  + sum_list (map (\<lambda>f. projr (get_file_size_mb fs f)) files)
            \<and> total_output_size st' =
                total_output_size st + sum_list (map snd (converted_sizes ev))
            \<and> success_count st' = success_count st + length (converted_sizes ev)
            \<and> Input_Total (total_input_size st') \<in> set (fst (summary n st'))
            \<and> Output_Total (total_output_size st') \<in> set (fst (summary n st')))
       \<and> (convert_to_webp pil fs0 f0 (output_file_of f0) 85 = (fs2, ev2, False)
            \<and> get_file_size_mb fs0 f0 = Inr a
          \<longrightarrow> snd (snd (process_file pil n i f0 fs0 st)) =
                Inr (st\<lparr>total_input_size := total_input_size st + a\<rparr>))
       \<and> (convert_to_webp pil fs0 f0 (output_file_of f0) 85 = (fs2, ev2, True)
            \<and> get_file_size_mb fs0 f0 = Inr a
            \<and> get_file_size_mb fs2 (output_file_of f0) = Inr b
          \<longrightarrow> snd (snd (process_file pil n i f0 fs0 st)) =
                Inr \<lparr>success_count = success_count st + 1,
                     total_input_size = total_input_size st + a,
                     total_output_size = total_output_size st + b\<rparr>)"
proof -
  from convert_loop_totals [OF assms, of pil n i st]
  have 1: "\<exists>fs' ev st'.
            convert_loop pil n i files fs st = (fs', ev, Inr st')
            \<and> total_input_size st' =
                total_input_size st
                  + sum_list (map (\<lambda>f. projr (get_file_size_mb fs f)) files)
            \<and> total_output_size st' =
                total_output_size st + sum_list (map snd (converted_sizes ev))
            \<and> success_count st' = success_count st + length (converted_sizes ev)
            \<and> Input_Total (total_input_size st') \<in> set (fst (summary n st'))
            \<and> Output_Total (total_output_size st') \<in> set (fst (summary n st'))"
    by (auto simp: summary_eq)
  have 2: "convert_to_webp pil fs0 f0 (output_file_of f0) 85 = (fs2, ev2, False)
            \<and> get_file_size_mb fs0 f0 = Inr a
          \<longrightarrow> snd (snd (process_file pil n i f0 fs0 st)) =
                Inr (st\<lparr>total_input_size := total_input_size st + a\<rparr>)"
    by (simp add: process_file_def Let_def)
  have 3: "convert_to_webp pil fs0 f0 (output_file_of f0) 85 = (fs2, ev2, True)
            \<and> get_file_size_mb fs0 f0 = Inr a
            \<and> get_file_size_mb fs2 (output_file_of f0) = Inr b
          \<longrightarrow> snd (snd (process_file pil n i f0 fs0 st)) =
                Inr \<lparr>success_count = success_count st + 1,
                     total_input_size = total_input_size st + a,
                     total_output_size = total_output_size st + b\<rparr>"
    by (simp add: process_file_def file_reduction_eq Let_def)
  from 1 2 3 show ?thesis by blast
qed

theorem totals_invariant_witness:
  "is_file demo_fs (INPUT_FOLDER @ [''photo.JPG''])
   \<and> is_file demo_fs (INPUT_FOLDER @ [''icon.png''])
   \<and> is_file demo_fs (INPUT_FOLDER @ [''broken.gif''])
   \<and> sum_list (map (\<lambda>f. projr (get_file_size_mb demo_fs f))
        [INPUT_FOLDER @ [''photo.JPG''], INPUT_FOLDER @ [''icon.png''],
         INPUT_FOLDER @ [''broken.gif'']]) = 22 / 1048576
   \<and> (\<exists>fs' ev.
         convert_loop demo_pillow 3 1
           [INPUT_FOLDER @ [''photo.JPG''], INPUT_FOLDER @ [''icon.png''],
            INPUT_FOLDER @ [''broken.gif'']] demo_fs
           \<lparr>success_count = 0, total_input_size = 0, total_output_size = 0\<rparr>
         = (fs', ev,
            Inr \<lparr>success_count = 2, total_input_size = 22 / 1048576,
                 total_output_size = 4 / 1048576\<rparr>)
         \<and> converted_sizes ev
             = [(14 / 1048576, 2 / 1048576), (8 / 1048576, 2 / 1048576)])
   \<and> snd (snd (process_file demo_pillow 3 3 (INPUT_FOLDER @ [''broken.gif'']) demo_fs
                  \<lparr>success_count = 2, total_input_size = 1, total_output_size = 1 / 2\<rparr>))
       = Inr \<lparr>success_count = 2, total_input_size = 1, total_output_size = 1 / 2\<rparr>"
proof -
  let ?files = "[INPUT_FOLDER @ [''photo.JPG''], INPUT_FOLDER @ [''icon.png''],
                 INPUT_FOLDER @ [''broken.gif'']]"
  let ?b = "INPUT_FOLDER @ [''broken.gif'']"
  have pre: "\<forall>f \<in> set ?files. butlast f = INPUT_FOLDER \<and> is_file demo_fs f"
    by (simp add: demo_sizes butlast_append)
  have fail: "convert_to_webp demo_pillow demo_fs ?b (output_file_of ?b) 85
                = (demo_fs, [Conversion_Error ''broken.gif'' ''cannot identify image file''],
                   False)"
    by (simp add: demo_defs)
  note t = totals_invariant [OF pre, of demo_pillow 3 1
      "\<lparr>success_count = 0, total_input_size = 0, total_output_size = 0\<rparr>"]
  note u = totals_invariant [OF pre, of demo_pillow 3 3
      "\<lparr>success_count = 2, total_input_size = 1, total_output_size = 1 / 2\<rparr>"
      demo_fs ?b demo_fs
      "[Conversion_Error ''broken.gif'' ''cannot identify image file'']" 0]
  have s: "snd (snd (process_file demo_pillow 3 3 ?b demo_fs
                  \<lparr>success_count = 2, total_input_size = 1, total_output_size = 1 / 2\<rparr>))
       = Inr \<lparr>success_count = 2, total_input_size = 1, total_output_size = 1 / 2\<rparr>"
    using u fail demo_sizes(6) by simp
  from t obtain fs' ev st' where
    a: "convert_loop demo_pillow 3 1 ?files demo_fs
          \<lparr>success_count = 0, total_input_size = 0, total_output_size = 0\<rparr>
        = (fs', ev, Inr st')"
    and b: "total_input_size st' =
              total_input_size \<lparr>success_count = 0, total_input_size = 0, total_output_size = 0\<rparr>
                + sum_list (map (\<lambda>f. projr (get_file_size_mb demo_fs f)) ?files)"
    by blast
  from a have st: "st' = \<lparr>success_count = 2, total_input_size = 22 / 1048576,
                           total_output_size = 4 / 1048576\<rparr>"
    and ev: "converted_sizes ev = [(14 / 1048576, 2 / 1048576), (8 / 1048576, 2 / 1048576)]"
    unfolding demo_loop by (auto simp: converted_sizes_simps)
  from b st have sum: "sum_list (map (\<lambda>f. projr (get_file_size_mb demo_fs f)) ?files)
                         = 22 / 1048576"
    by simp
  have l: "\<exists>fs' ev.
         convert_loop demo_pillow 3 1 ?files demo_fs
           \<lparr>success_count = 0, total_input_size = 0, total_output_size = 0\<rparr>
         = (fs', ev,
            Inr \<lparr>success_count = 2, total_input_size = 22 / 1048576,
                 total_output_size = 4 / 1048576\<rparr>)
         \<and> converted_sizes ev
             = [(14 / 1048576, 2 / 1048576), (8 / 1048576, 2 / 1048576)]"
    using a ev unfolding st by blast
  from s l sum demo_sizes(1-3) show ?thesis by blast
qed

end
